theory Spec2Isabelle
  imports Complex_Main "HOL-Library.AList"
begin

section \<open>Browser storage and JSON documents\<close>

text \<open>
  The scripts keep every collection as one JSON string in \<open>localStorage\<close>. The store is a
  finite map from key strings to strings; \<open>getItem\<close> of a missing key is \<open>null\<close>
  (\<open>None\<close>).
\<close>

type_synonym localStorage = "string \<Rightarrow> string option"

definition getItem :: "localStorage \<Rightarrow> string \<Rightarrow> string option" where
  "getItem ls k = ls k"

definition setItem :: "localStorage \<Rightarrow> string \<Rightarrow> string \<Rightarrow> localStorage" where
  "setItem ls k v = ls(k \<mapsto> v)"

definition removeItem :: "localStorage \<Rightarrow> string \<Rightarrow> localStorage" where
  "removeItem ls k = ls(k := None)"

text \<open>
  A JSON document. Objects are association lists in insertion order; a lookup reads the
  first binding of a key. Numbers in stored documents are whole (identifiers, epoch
  milliseconds, durations).
\<close>

datatype json =
    JNull
  | JBool bool
  | JNum int
  | JStr string
  | JArr "json list"
  | JObj "(string \<times> json) list"

text \<open>
  \<open>JSON.parse\<close> and \<open>JSON.stringify\<close> belong to the browser, not to the repository. They
  are a parameter of every function that touches the store: \<open>parse J s = None\<close> stands
  for the \<open>SyntaxError\<close> thrown on malformed text. The type parameter is the shape of
  the document kept under one key.
\<close>

record 'a JSON =
  parse :: "string \<Rightarrow> 'a option"
  stringify :: "'a \<Rightarrow> string"

text \<open>What a caller may expect of the browser for one document: the text is not empty
  and reads back as the same document.\<close>

definition roundtrips :: "'a JSON \<Rightarrow> 'a \<Rightarrow> bool" where
  "roundtrips J v = (stringify J v \<noteq> [] \<and> parse J (stringify J v) = Some v)"

subsection \<open>storage.js: keys and utilities\<close>

definition PORTFOLIO :: string where "PORTFOLIO = ''finance_portfolio_holdings''"
definition TRANSACTIONS :: string where "TRANSACTIONS = ''finance_transactions''"
definition EXPENSES :: string where "EXPENSES = ''finance_expenses''"
definition GOALS :: string where "GOALS = ''finance_savings_goals''"
definition SETTINGS :: string where "SETTINGS = ''finance_user_settings''"
definition CACHE :: string where "CACHE = ''finance_api_cache''"

text \<open>\<open>safeParse(data, defaultValue)\<close>: a \<open>null\<close> or empty string is falsy and gives
  the default; a parse error is caught and gives the default.\<close>

definition safeParse :: "'a JSON \<Rightarrow> string option \<Rightarrow> 'a \<Rightarrow> 'a" where
  "safeParse J d defaultValue =
     (case d of
        None \<Rightarrow> defaultValue
      | Some s \<Rightarrow>
          if s = [] then defaultValue
          else (case parse J s of None \<Rightarrow> defaultValue | Some v \<Rightarrow> v))"

text \<open>\<open>safeStringify(data)\<close>: on a JSON document \<open>JSON.stringify\<close> does not throw.\<close>

definition safeStringify :: "'a JSON \<Rightarrow> 'a \<Rightarrow> string option" where
  "safeStringify J v = Some (stringify J v)"

text \<open>The body shared by every \<open>save\<close>: write only when the text is truthy.\<close>

definition save_under :: "string \<Rightarrow> 'a JSON \<Rightarrow> 'a \<Rightarrow> localStorage \<Rightarrow> bool \<times> localStorage" where
  "save_under k J v ls =
     (case safeStringify J v of
        None \<Rightarrow> (False, ls)
      | Some s \<Rightarrow> if s \<noteq> [] then (True, setItem ls k s) else (False, ls))"

section \<open>storage.js: the time-bounded cache\<close>

record entry =
  data :: json
  timestamp :: int
  ttl :: "int option"

type_synonym category = "(string \<times> entry) list"
type_synonym cache = "(string \<times> category) list"

text \<open>\<open>Object.keys\<close>: each own key once.\<close>

definition keys :: "(string \<times> 'v) list \<Rightarrow> string list" where
  "keys obj = remdups (map fst obj)"

text \<open>\<open>cache[category][key]\<close>, \<open>None\<close> when either step is \<open>undefined\<close>.\<close>

definition lookup :: "cache \<Rightarrow> string \<Rightarrow> string \<Rightarrow> entry option" where
  "lookup c cat k = (case map_of c cat of None \<Rightarrow> None | Some obj \<Rightarrow> map_of obj k)"

definition default_cache :: cache where
  "default_cache = [(''stockPrices'', []), (''exchangeRates'', []), (''news'', [])]"

definition cache_load :: "cache JSON \<Rightarrow> localStorage \<Rightarrow> cache" where
  "cache_load J ls = safeParse J (getItem ls CACHE) default_cache"

definition cache_save :: "cache JSON \<Rightarrow> cache \<Rightarrow> localStorage \<Rightarrow> bool \<times> localStorage" where
  "cache_save J c ls = save_under CACHE J c ls"

text \<open>\<open>set(category, key, value, ttl = null)\<close>; \<open>now\<close> is \<open>Date.now()\<close>. The
  assignments to the loaded object are \<open>put_entry\<close>: a missing category is created, then
  the entry is written over whatever the coordinate held.\<close>

definition put_entry :: "cache \<Rightarrow> string \<Rightarrow> string \<Rightarrow> entry \<Rightarrow> cache" where
  "put_entry c cat k e =
     (let c1 = (case map_of c cat of None \<Rightarrow> AList.update cat [] c | Some _ \<Rightarrow> c);
          obj = (case map_of c1 cat of None \<Rightarrow> [] | Some obj \<Rightarrow> obj)
      in AList.update cat (AList.update k e obj) c1)"

definition cache_set ::
  "cache JSON \<Rightarrow> int \<Rightarrow> string \<Rightarrow> string \<Rightarrow> json \<Rightarrow> int option \<Rightarrow> localStorage \<Rightarrow> bool \<times> localStorage" where
  "cache_set J now cat k v t ls =
     (let c = cache_load J ls
      in cache_save J (put_entry c cat k \<lparr>data = v, timestamp = now, ttl = t\<rparr>) ls)"

text \<open>\<open>delete(category, key)\<close>.\<close>

definition cache_delete :: "cache JSON \<Rightarrow> string \<Rightarrow> string \<Rightarrow> localStorage \<Rightarrow> bool \<times> localStorage" where
  "cache_delete J cat k ls =
     (let c = cache_load J ls in
      case map_of c cat of
        None \<Rightarrow> (False, ls)
      | Some obj \<Rightarrow>
          (case map_of obj k of
             None \<Rightarrow> (False, ls)
           | Some _ \<Rightarrow> cache_save J (AList.update cat (AList.delete k obj) c) ls))"

text \<open>The test of lines 613 and 675, \<open>entry.ttl && Date.now() - entry.timestamp > entry.ttl\<close>:
  \<open>null\<close> and \<open>0\<close> are falsy.\<close>

definition expired :: "int \<Rightarrow> entry \<Rightarrow> bool" where
  "expired now e =
     (case ttl e of None \<Rightarrow> False | Some t \<Rightarrow> t \<noteq> 0 \<and> now - timestamp e > t)"

text \<open>\<open>get(category, key)\<close>: the value (or \<open>null\<close>) and the store it leaves.\<close>

definition cache_get :: "cache JSON \<Rightarrow> int \<Rightarrow> string \<Rightarrow> string \<Rightarrow> localStorage \<Rightarrow> json \<times> localStorage" where
  "cache_get J now cat k ls =
     (let c = cache_load J ls in
      case lookup c cat k of
        None \<Rightarrow> (JNull, ls)
      | Some e \<Rightarrow>
          if expired now e then (JNull, snd (cache_delete J cat k ls))
          else (data e, ls))"

text \<open>\<open>isValid(category, key, maxAge)\<close>; it only reads.\<close>

definition isValid :: "cache JSON \<Rightarrow> int \<Rightarrow> string \<Rightarrow> string \<Rightarrow> int \<Rightarrow> localStorage \<Rightarrow> bool \<times> localStorage" where
  "isValid J now cat k maxAge ls =
     (let c = cache_load J ls in
      case lookup c cat k of
        None \<Rightarrow> (False, ls)
      | Some e \<Rightarrow> (now - timestamp e < maxAge, ls))"

text \<open>\<open>clearExpired()\<close>. The inner \<open>forEach\<close> walks the keys of one category object and
  deletes in place; the outer one walks the category names. The sweep reads the clock
  once. A key always has an entry, since the keys were taken from the same object.\<close>

fun sweep_keys :: "int \<Rightarrow> string list \<Rightarrow> category \<times> nat \<Rightarrow> category \<times> nat" where
  "sweep_keys now [] acc = acc"
| "sweep_keys now (k # ks) (obj, cleared) =
     (case map_of obj k of
        None \<Rightarrow> sweep_keys now ks (obj, cleared)
      | Some e \<Rightarrow>
          if expired now e then sweep_keys now ks (AList.delete k obj, Suc cleared)
          else sweep_keys now ks (obj, cleared))"

fun sweep_categories :: "int \<Rightarrow> string list \<Rightarrow> cache \<times> nat \<Rightarrow> cache \<times> nat" where
  "sweep_categories now [] acc = acc"
| "sweep_categories now (cat # cats) (c, cleared) =
     (case map_of c cat of
        None \<Rightarrow> sweep_categories now cats (c, cleared)
      | Some obj \<Rightarrow>
          (let (obj', cleared') = sweep_keys now (keys obj) (obj, cleared)
           in sweep_categories now cats (AList.update cat obj' c, cleared')))"

definition sweep :: "int \<Rightarrow> cache \<Rightarrow> cache \<times> nat" where
  "sweep now c = sweep_categories now (keys c) (c, 0)"

definition clearExpired :: "cache JSON \<Rightarrow> int \<Rightarrow> localStorage \<Rightarrow> nat \<times> localStorage" where
  "clearExpired J now ls =
     (let c = cache_load J ls;
          (c', cleared) = sweep now c
      in (cleared, snd (cache_save J c' ls)))"

text \<open>\<open>getStats()\<close>.\<close>

record stats =
  totalEntries :: nat
  byCategory :: "(string \<times> nat) list"

fun count_categories :: "cache \<Rightarrow> string list \<Rightarrow> stats \<Rightarrow> stats" where
  "count_categories c [] st = st"
| "count_categories c (cat # cats) st =
     (let n = (case map_of c cat of None \<Rightarrow> 0 | Some obj \<Rightarrow> length (keys obj))
      in count_categories c cats
           \<lparr>totalEntries = totalEntries st + n,
            byCategory = AList.update cat n (byCategory st)\<rparr>)"

definition getStats :: "cache JSON \<Rightarrow> localStorage \<Rightarrow> stats" where
  "getStats J ls =
     (let c = cache_load J ls
      in count_categories c (keys c) \<lparr>totalEntries = 0, byCategory = []\<rparr>)"

section \<open>A reference reader and printer for JSON text\<close>

text \<open>
  One concrete browser, to run the scripts on stored text: a printer and a
  recursive-descent reader for JSON with whole numbers. The reader takes fuel, one more
  than the length of the text, and returns \<open>None\<close> on malformed text. It leaves out
  what the stored documents never hold: a number with a fraction or an exponent, and
  the escapes for backspace, form feed and numbered code points. A repeated key of an
  object keeps its first position and its last value.
\<close>

definition digit_char :: "nat \<Rightarrow> char" where
  "digit_char d = ''0123456789'' ! d"

fun show_nat :: "nat \<Rightarrow> string" where
  "show_nat n = (if n < 10 then [digit_char n] else show_nat (n div 10) @ [digit_char (n mod 10)])"

declare show_nat.simps [simp del]

definition show_int :: "int \<Rightarrow> string" where
  "show_int i = (if i < 0 then CHR ''-'' # show_nat (nat (- i)) else show_nat (nat i))"

fun escape :: "string \<Rightarrow> string" where
  "escape [] = []"
| "escape (c # cs) =
     (if c = CHR 0x22 \<or> c = CHR 0x5C then CHR 0x5C # c # escape cs else c # escape cs)"

fun commas :: "string list \<Rightarrow> string" where
  "commas [] = []"
| "commas [s] = s"
| "commas (s # t # ss) = s @ CHR '','' # commas (t # ss)"

fun json_print :: "json \<Rightarrow> string" where
  "json_print JNull = ''null''"
| "json_print (JBool b) = (if b then ''true'' else ''false'')"
| "json_print (JNum i) = show_int i"
| "json_print (JStr s) = CHR 0x22 # escape s @ [CHR 0x22]"
| "json_print (JArr vs) = CHR ''['' # commas (map json_print vs) @ '']''"
| "json_print (JObj kvs) =
     CHR ''{'' # commas (map (\<lambda>(k, v). CHR 0x22 # escape k @ CHR 0x22 # CHR '':'' # json_print v) kvs) @ ''}''"

definition is_ws :: "char \<Rightarrow> bool" where
  "is_ws c = (c = CHR 0x20 \<or> c = CHR 0x0A \<or> c = CHR 0x0D \<or> c = CHR 0x09)"

definition skip_ws :: "string \<Rightarrow> string" where
  "skip_ws s = dropWhile is_ws s"

definition is_digit :: "char \<Rightarrow> bool" where
  "is_digit c = (c \<in> set ''0123456789'')"

definition digit_val :: "char \<Rightarrow> nat" where
  "digit_val c = of_char c - 48"

definition read_nat :: "string \<Rightarrow> (nat \<times> string) option" where
  "read_nat s =
     (let ds = takeWhile is_digit s; r = dropWhile is_digit s in
      if ds = [] \<or> (length ds > 1 \<and> hd ds = CHR ''0'') then None
      else if r \<noteq> [] \<and> hd r \<in> set ''.eE'' then None
      else Some (foldl (\<lambda>a c. 10 * a + digit_val c) 0 ds, r))"

definition read_number :: "string \<Rightarrow> (json \<times> string) option" where
  "read_number s =
     (case s of
        [] \<Rightarrow> None
      | c # cs \<Rightarrow>
          if c = CHR ''-'' then map_option (\<lambda>(n, r). (JNum (- int n), r)) (read_nat cs)
          else map_option (\<lambda>(n, r). (JNum (int n), r)) (read_nat s))"

fun unescape :: "char \<Rightarrow> char option" where
  "unescape c =
     (if c = CHR 0x22 \<or> c = CHR 0x5C \<or> c = CHR ''/'' then Some c
      else if c = CHR ''n'' then Some (CHR 0x0A)
      else if c = CHR ''r'' then Some (CHR 0x0D)
      else if c = CHR ''t'' then Some (CHR 0x09)
      else None)"

fun read_chars :: "string \<Rightarrow> (string \<times> string) option" where
  "read_chars [] = None"
| "read_chars [c] = (if c = CHR 0x22 then Some ([], []) else None)"
| "read_chars (c # d # ds) =
     (if c = CHR 0x22 then Some ([], d # ds)
      else if c = CHR 0x5C then
        (case unescape d of
           None \<Rightarrow> None
         | Some u \<Rightarrow> map_option (\<lambda>(t, r). (u # t, r)) (read_chars ds))
      else map_option (\<lambda>(t, r). (c # t, r)) (read_chars (d # ds)))"

fun read_value :: "nat \<Rightarrow> string \<Rightarrow> (json \<times> string) option"
and read_elems :: "nat \<Rightarrow> string \<Rightarrow> (json list \<times> string) option"
and read_members :: "nat \<Rightarrow> string \<Rightarrow> ((string \<times> json) list \<times> string) option" where
  "read_value 0 s = None"
| "read_value (Suc n) s =
     (case skip_ws s of
        [] \<Rightarrow> None
      | c # cs \<Rightarrow>
          if c = CHR ''['' then
            (case skip_ws cs of
               [] \<Rightarrow> None
             | d # ds \<Rightarrow> if d = CHR '']'' then Some (JArr [], ds)
                         else map_option (\<lambda>(vs, r). (JArr vs, r)) (read_elems n cs))
          else if c = CHR ''{'' then
            (case skip_ws cs of
               [] \<Rightarrow> None
             | d # ds \<Rightarrow> if d = CHR ''}'' then Some (JObj [], ds)
                         else map_option (\<lambda>(kvs, r). (JObj (fold (\<lambda>(k, v). AList.update k v) kvs []), r))
                                (read_members n cs))
          else if c = CHR 0x22 then map_option (\<lambda>(t, r). (JStr t, r)) (read_chars cs)
          else if take 4 (c # cs) = ''null'' then Some (JNull, drop 3 cs)
          else if take 4 (c # cs) = ''true'' then Some (JBool True, drop 3 cs)
          else if take 5 (c # cs) = ''false'' then Some (JBool False, drop 4 cs)
          else read_number (c # cs))"
| "read_elems 0 s = None"
| "read_elems (Suc n) s =
     (case read_value n s of
        None \<Rightarrow> None
      | Some (v, r) \<Rightarrow>
          (case skip_ws r of
             [] \<Rightarrow> None
           | c # cs \<Rightarrow>
               if c = CHR '']'' then Some ([v], cs)
               else if c = CHR '','' then map_option (\<lambda>(vs, r'). (v # vs, r')) (read_elems n cs)
               else None))"
| "read_members 0 s = None"
| "read_members (Suc n) s =
     (case skip_ws s of
        [] \<Rightarrow> None
      | q # s1 \<Rightarrow>
          if q \<noteq> CHR 0x22 then None
          else
            (case read_chars s1 of
               None \<Rightarrow> None
             | Some (k, s2) \<Rightarrow>
                 (case skip_ws s2 of
                    [] \<Rightarrow> None
                  | c # s3 \<Rightarrow>
                      if c \<noteq> CHR '':'' then None
                      else
                        (case read_value n s3 of
                           None \<Rightarrow> None
                         | Some (v, s4) \<Rightarrow>
                             (case skip_ws s4 of
                                [] \<Rightarrow> None
                              | e # s5 \<Rightarrow>
                                  if e = CHR ''}'' then Some ([(k, v)], s5)
                                  else if e = CHR '','' then
                                    map_option (\<lambda>(kvs, r). ((k, v) # kvs, r)) (read_members n s5)
                                  else None)))))"

definition json_read :: "string \<Rightarrow> json option" where
  "json_read s =
     (case read_value (Suc (length s)) s of
        None \<Rightarrow> None
      | Some (v, r) \<Rightarrow> if skip_ws r = [] then Some v else None)"

definition ref_JSON :: "json JSON" where
  "ref_JSON = \<lparr>parse = json_read, stringify = json_print\<rparr>"

text \<open>The cache document \<open>{category: {key: {data, timestamp, ttl}}}\<close> as JSON.\<close>

definition json_of_entry :: "entry \<Rightarrow> json" where
  "json_of_entry e =
     JObj [(''data'', data e), (''timestamp'', JNum (timestamp e)),
           (''ttl'', case ttl e of None \<Rightarrow> JNull | Some t \<Rightarrow> JNum t)]"

definition json_of_cache :: "cache \<Rightarrow> json" where
  "json_of_cache c =
     JObj (map (\<lambda>(cat, obj). (cat, JObj (map (\<lambda>(k, e). (k, json_of_entry e)) obj))) c)"

definition entry_of_json :: "json \<Rightarrow> entry option" where
  "entry_of_json j =
     (case j of
        JObj kvs \<Rightarrow>
          (case (map_of kvs ''data'', map_of kvs ''timestamp'') of
             (Some d, Some (JNum ts)) \<Rightarrow>
               (case map_of kvs ''ttl'' of
                  None \<Rightarrow> Some \<lparr>data = d, timestamp = ts, ttl = None\<rparr>
                | Some JNull \<Rightarrow> Some \<lparr>data = d, timestamp = ts, ttl = None\<rparr>
                | Some (JNum t) \<Rightarrow> Some \<lparr>data = d, timestamp = ts, ttl = Some t\<rparr>
                | Some _ \<Rightarrow> None)
           | _ \<Rightarrow> None)
      | _ \<Rightarrow> None)"

definition object_of_json :: "(json \<Rightarrow> 'a option) \<Rightarrow> json \<Rightarrow> (string \<times> 'a) list option" where
  "object_of_json f j =
     (case j of
        JObj kvs \<Rightarrow> those (map (\<lambda>(k, v). map_option (Pair k) (f v)) kvs)
      | _ \<Rightarrow> None)"

definition cache_of_json :: "json \<Rightarrow> cache option" where
  "cache_of_json = object_of_json (object_of_json entry_of_json)"

definition ref_cache_JSON :: "cache JSON" where
  "ref_cache_JSON =
     \<lparr>parse = (\<lambda>s. case json_read s of None \<Rightarrow> None | Some j \<Rightarrow> cache_of_json j),
      stringify = (\<lambda>c. json_print (json_of_cache c))\<rparr>"

section \<open>Counting and stored examples\<close>

text \<open>The number of keys \<open>getStats\<close> counts in one category.\<close>

definition entry_count :: "cache \<Rightarrow> string \<Rightarrow> nat" where
  "entry_count c cat = (case map_of c cat of None \<Rightarrow> 0 | Some obj \<Rightarrow> length (keys obj))"

text \<open>The store of the spec's scenario: \<open>set("stockPrices", "AAPL", {price: 150}, 3600000)\<close>
  at time 1000.\<close>

definition aapl_store :: localStorage where
  "aapl_store = [CACHE \<mapsto>
     ''{\"stockPrices\":{\"AAPL\":{\"data\":{\"price\":150},\"timestamp\":1000,\"ttl\":3600000}}}'']"

definition aapl_entry :: entry where
  "aapl_entry = \<lparr>data = JObj [(''price'', JNum 150)], timestamp = 1000, ttl = Some 3600000\<rparr>"

text \<open>Whether the sweep's test holds of the entry a key reads, and how many keys of a
  category it holds of.\<close>

definition expired_at :: "int \<Rightarrow> category \<Rightarrow> string \<Rightarrow> bool" where
  "expired_at now obj k = (case map_of obj k of None \<Rightarrow> False | Some e \<Rightarrow> expired now e)"

definition expired_count :: "int \<Rightarrow> cache \<Rightarrow> string \<Rightarrow> nat" where
  "expired_count now c cat =
     (case map_of c cat of
        None \<Rightarrow> 0
      | Some obj \<Rightarrow> length (filter (expired_at now obj) (keys obj)))"

text \<open>The spec's own notion of an elapsed ttl (section 3: an entry is valid iff \<open>ttl\<close> is
  null or \<open>now - timestamp < ttl\<close>), to compare with the test the code makes.\<close>

definition ttl_elapsed :: "int \<Rightarrow> entry \<Rightarrow> bool" where
  "ttl_elapsed now e = (case ttl e of None \<Rightarrow> False | Some t \<Rightarrow> \<not> now - timestamp e < t)"

text \<open>A category with four entries written at time 1000: ttl 0, ttl 4000, no ttl, ttl 10.\<close>

definition news_store :: localStorage where
  "news_store = [CACHE \<mapsto>
     ''{\"news\":{\"a\":{\"data\":1,\"timestamp\":1000,\"ttl\":0},\"b\":{\"data\":2,\"timestamp\":1000,\"ttl\":4000},\"c\":{\"data\":3,\"timestamp\":1000,\"ttl\":null},\"d\":{\"data\":4,\"timestamp\":1000,\"ttl\":10}}}'']"

definition news_entries :: category where
  "news_entries =
     [(''a'', \<lparr>data = JNum 1, timestamp = 1000, ttl = Some 0\<rparr>),
      (''b'', \<lparr>data = JNum 2, timestamp = 1000, ttl = Some 4000\<rparr>),
      (''c'', \<lparr>data = JNum 3, timestamp = 1000, ttl = None\<rparr>),
      (''d'', \<lparr>data = JNum 4, timestamp = 1000, ttl = Some 10\<rparr>)]"

text \<open>The default cache after \<open>set("stockPrices", "AAPL", 7, 0)\<close> at time 1000.\<close>

definition zero_ttl_cache :: cache where
  "zero_ttl_cache =
     [(''stockPrices'', [(''AAPL'', \<lparr>data = JNum 7, timestamp = 1000, ttl = Some 0\<rparr>)]),
      (''exchangeRates'', []), (''news'', [])]"

section \<open>storage.js: the domain collections\<close>

text \<open>Each collection is one document under its key; \<open>load\<close> falls back to an empty
  array, \<open>save\<close> writes the whole document.\<close>

definition portfolio_load :: "json JSON \<Rightarrow> localStorage \<Rightarrow> json" where
  "portfolio_load J ls = safeParse J (getItem ls PORTFOLIO) (JArr [])"

definition portfolio_save :: "json JSON \<Rightarrow> json \<Rightarrow> localStorage \<Rightarrow> bool \<times> localStorage" where
  "portfolio_save J holdings ls = save_under PORTFOLIO J holdings ls"

definition transaction_load :: "json JSON \<Rightarrow> localStorage \<Rightarrow> json" where
  "transaction_load J ls = safeParse J (getItem ls TRANSACTIONS) (JArr [])"

definition transaction_save :: "json JSON \<Rightarrow> json \<Rightarrow> localStorage \<Rightarrow> bool \<times> localStorage" where
  "transaction_save J transactions ls = save_under TRANSACTIONS J transactions ls"

definition expense_load :: "json JSON \<Rightarrow> localStorage \<Rightarrow> json" where
  "expense_load J ls = safeParse J (getItem ls EXPENSES) (JArr [])"

definition expense_save :: "json JSON \<Rightarrow> json \<Rightarrow> localStorage \<Rightarrow> bool \<times> localStorage" where
  "expense_save J expenses ls = save_under EXPENSES J expenses ls"

definition goal_load :: "json JSON \<Rightarrow> localStorage \<Rightarrow> json" where
  "goal_load J ls = safeParse J (getItem ls GOALS) (JArr [])"

definition goal_save :: "json JSON \<Rightarrow> json \<Rightarrow> localStorage \<Rightarrow> bool \<times> localStorage" where
  "goal_save J gs ls = save_under GOALS J gs ls"

text \<open>\<open>settingsStorage.defaults\<close>.\<close>

definition defaults :: "(string \<times> json) list" where
  "defaults =
     [(''currency'', JStr ''USD''), (''theme'', JStr ''light''),
      (''refreshInterval'', JNum 60000), (''dateFormat'', JStr ''MM/DD/YYYY''),
      (''language'', JStr ''en'')]"

text \<open>Object spread \<open>{...a, ...b}\<close>: the own enumerable properties of \<open>b\<close> are written
  over \<open>a\<close> in order. An array spreads its indices, a string its characters, any other
  value nothing.\<close>

definition own_properties :: "json \<Rightarrow> (string \<times> json) list" where
  "own_properties j =
     (case j of
        JObj kvs \<Rightarrow> kvs
      | JArr vs \<Rightarrow> zip (map show_nat [0..<length vs]) vs
      | JStr s \<Rightarrow> zip (map show_nat [0..<length s]) (map (\<lambda>c. JStr [c]) s)
      | _ \<Rightarrow> [])"

definition spread :: "(string \<times> json) list \<Rightarrow> json \<Rightarrow> (string \<times> json) list" where
  "spread a b = fold (\<lambda>(k, v). AList.update k v) (own_properties b) a"

definition settings_load :: "json JSON \<Rightarrow> localStorage \<Rightarrow> json" where
  "settings_load J ls =
     (let settings = safeParse J (getItem ls SETTINGS) (JObj [])
      in JObj (spread defaults settings))"

definition settings_save :: "json JSON \<Rightarrow> json \<Rightarrow> localStorage \<Rightarrow> bool \<times> localStorage" where
  "settings_save J settings ls = save_under SETTINGS J settings ls"

section \<open>goals.js and the spending script: collections read at module load\<close>

text \<open>
  \<open>let goals = JSON.parse(localStorage.getItem('savingsGoals')) || [];\<close> (goals.js line 4;
  the spending script reads \<open>spendingItems\<close> and \<open>savingsGoals\<close> the same way). No
  \<open>try\<close> surrounds the call, so a \<open>SyntaxError\<close> reaches the caller. A missing key gives
  \<open>JSON.parse(null)\<close>, which is \<open>null\<close>, and \<open>||\<close> replaces every falsy value by \<open>[]\<close>.
\<close>

datatype js_error = SyntaxError

definition truthy :: "json \<Rightarrow> bool" where
  "truthy j =
     (case j of
        JNull \<Rightarrow> False
      | JBool b \<Rightarrow> b
      | JNum n \<Rightarrow> n \<noteq> 0
      | JStr s \<Rightarrow> s \<noteq> []
      | _ \<Rightarrow> True)"

definition parse_or_empty :: "json JSON \<Rightarrow> localStorage \<Rightarrow> string \<Rightarrow> js_error + json" where
  "parse_or_empty J ls k =
     (case getItem ls k of
        None \<Rightarrow> Inr (JArr [])
      | Some s \<Rightarrow>
          (case parse J s of
             None \<Rightarrow> Inl SyntaxError
           | Some v \<Rightarrow> Inr (if truthy v then v else JArr [])))"

definition goals_init :: "json JSON \<Rightarrow> localStorage \<Rightarrow> js_error + json" where
  "goals_init J ls = parse_or_empty J ls ''savingsGoals''"

definition spendingItems_init :: "json JSON \<Rightarrow> localStorage \<Rightarrow> js_error + json" where
  "spendingItems_init J ls = parse_or_empty J ls ''spendingItems''"

text \<open>Two holdings-like records of different shapes, for running the round trip.\<close>

definition two_records :: json where
  "two_records =
     JArr [JObj [(''id'', JStr ''1_a''), (''symbol'', JStr ''AAPL''), (''quantity'', JNum 10)],
           JObj [(''id'', JNum 2), (''type'', JStr ''buy''), (''notes'', JStr ''''),
                 (''ok'', JBool True), (''tags'', JArr [JNull])]]"

section \<open>JavaScript numbers\<close>

text \<open>
  A number is a real, an infinity or \<open>NaN\<close>. Finite arithmetic is exact (no rounding,
  no overflow) and zero carries no sign: a division by zero gives the infinity of the
  sign of the dividend, and \<open>0 / 0\<close>, \<open>Infinity * 0\<close> and \<open>Infinity - Infinity\<close> give
  \<open>NaN\<close>, as IEEE 754 has it for a positive zero.
\<close>

datatype number = Num real | PosInf | NegInf | NaN

fun num_neg :: "number \<Rightarrow> number" where
  "num_neg (Num a) = Num (- a)"
| "num_neg PosInf = NegInf"
| "num_neg NegInf = PosInf"
| "num_neg NaN = NaN"

fun num_add :: "number \<Rightarrow> number \<Rightarrow> number" where
  "num_add (Num a) (Num b) = Num (a + b)"
| "num_add NaN _ = NaN"
| "num_add _ NaN = NaN"
| "num_add PosInf NegInf = NaN"
| "num_add NegInf PosInf = NaN"
| "num_add PosInf _ = PosInf"
| "num_add NegInf _ = NegInf"
| "num_add _ PosInf = PosInf"
| "num_add _ NegInf = NegInf"

definition num_sub :: "number \<Rightarrow> number \<Rightarrow> number" where
  "num_sub a b = num_add a (num_neg b)"

text \<open>The infinity of a sign; \<open>NaN\<close> for sign zero.\<close>

definition signed_inf :: "real \<Rightarrow> number" where
  "signed_inf s = (if s > 0 then PosInf else if s < 0 then NegInf else NaN)"

fun num_mul :: "number \<Rightarrow> number \<Rightarrow> number" where
  "num_mul (Num a) (Num b) = Num (a * b)"
| "num_mul NaN _ = NaN"
| "num_mul _ NaN = NaN"
| "num_mul PosInf (Num b) = signed_inf b"
| "num_mul NegInf (Num b) = signed_inf (- b)"
| "num_mul (Num a) PosInf = signed_inf a"
| "num_mul (Num a) NegInf = signed_inf (- a)"
| "num_mul PosInf PosInf = PosInf"
| "num_mul NegInf NegInf = PosInf"
| "num_mul PosInf NegInf = NegInf"
| "num_mul NegInf PosInf = NegInf"

fun num_div :: "number \<Rightarrow> number \<Rightarrow> number" where
  "num_div (Num a) (Num b) = (if b = 0 then signed_inf a else Num (a / b))"
| "num_div NaN _ = NaN"
| "num_div _ NaN = NaN"
| "num_div PosInf (Num b) = (if b < 0 then NegInf else PosInf)"
| "num_div NegInf (Num b) = (if b < 0 then PosInf else NegInf)"
| "num_div (Num a) PosInf = Num 0"
| "num_div (Num a) NegInf = Num 0"
| "num_div PosInf PosInf = NaN"
| "num_div PosInf NegInf = NaN"
| "num_div NegInf PosInf = NaN"
| "num_div NegInf NegInf = NaN"

text \<open>\<open>a < b\<close>; every comparison with \<open>NaN\<close> is false.\<close>

fun num_less :: "number \<Rightarrow> number \<Rightarrow> bool" where
  "num_less (Num a) (Num b) = (a < b)"
| "num_less NaN _ = False"
| "num_less _ NaN = False"
| "num_less (Num a) PosInf = True"
| "num_less (Num a) NegInf = False"
| "num_less PosInf (Num b) = False"
| "num_less NegInf (Num b) = True"
| "num_less PosInf PosInf = False"
| "num_less PosInf NegInf = False"
| "num_less NegInf PosInf = True"
| "num_less NegInf NegInf = False"

text \<open>Truthiness of a number: \<open>0\<close> and \<open>NaN\<close> are falsy.\<close>

fun num_truthy :: "number \<Rightarrow> bool" where
  "num_truthy (Num a) = (a \<noteq> 0)"
| "num_truthy NaN = False"
| "num_truthy _ = True"

text \<open>\<open>Math.min\<close> and \<open>Math.max\<close> of two arguments and of a spread array (\<open>Infinity\<close> and
  \<open>-Infinity\<close> on no argument), and \<open>Math.round\<close>, which rounds a half up.\<close>

definition min2 :: "number \<Rightarrow> number \<Rightarrow> number" where
  "min2 a b = (if a = NaN \<or> b = NaN then NaN else if num_less b a then b else a)"

definition max2 :: "number \<Rightarrow> number \<Rightarrow> number" where
  "max2 a b = (if a = NaN \<or> b = NaN then NaN else if num_less a b then b else a)"

definition Math_min :: "number list \<Rightarrow> number" where
  "Math_min xs = fold (\<lambda>x m. min2 m x) xs PosInf"

definition Math_max :: "number list \<Rightarrow> number" where
  "Math_max xs = fold (\<lambda>x m. max2 m x) xs NegInf"

fun Math_round :: "number \<Rightarrow> number" where
  "Math_round (Num a) = Num (of_int \<lfloor>a + 1 / 2\<rfloor>)"
| "Math_round x = x"

text \<open>\<open>parseFloat\<close> of a number is that number.\<close>

definition parseFloat :: "number \<Rightarrow> number" where
  "parseFloat x = x"

text \<open>The text of a number in a template literal, for the values \<open>Math.round\<close> returns.\<close>

fun number_text :: "number \<Rightarrow> string" where
  "number_text (Num a) = show_int \<lfloor>a\<rfloor>"
| "number_text PosInf = ''Infinity''"
| "number_text NegInf = ''-Infinity''"
| "number_text NaN = ''NaN''"

section \<open>goals.js: savings goals\<close>

record goal =
  goal_id :: int
  name :: string
  targetAmount :: number
  currentProgress :: number
  deadline :: "string option"
  dateCreated :: string

text \<open>The module's state: the array \<open>goals\<close> and the store it is saved to.\<close>

record goals_page =
  goals :: "goal list"
  storage :: localStorage

definition calculatePercentage :: "number \<Rightarrow> number \<Rightarrow> number" where
  "calculatePercentage current target =
     (if target = Num 0 then Num 0
      else min2 (Math_round (num_mul (num_div current target) (Num 100))) (Num 100))"

text \<open>The line \<open>${percentage}% Complete\<close> of \<open>createGoalCard\<close>.\<close>

definition goal_percentage_text :: "goal \<Rightarrow> string" where
  "goal_percentage_text g =
     number_text (calculatePercentage (currentProgress g) (targetAmount g)) @ ''% Complete''"

definition saveGoals :: "goal list JSON \<Rightarrow> goals_page \<Rightarrow> goals_page" where
  "saveGoals J st = st\<lparr>storage := setItem (storage st) ''savingsGoals'' (stringify J (goals st))\<rparr>"

text \<open>\<open>deadline || null\<close>: the empty string is falsy.\<close>

definition or_null :: "string option \<Rightarrow> string option" where
  "or_null d = (case d of None \<Rightarrow> None | Some s \<Rightarrow> if s = [] then None else Some s)"

text \<open>\<open>addGoal\<close>; \<open>now\<close> is \<open>Date.now()\<close> and \<open>created\<close> is \<open>new Date().toISOString()\<close>.\<close>

definition addGoal ::
  "goal list JSON \<Rightarrow> int \<Rightarrow> string \<Rightarrow> string \<Rightarrow> number \<Rightarrow> number \<Rightarrow> string option \<Rightarrow> goals_page
     \<Rightarrow> goal \<times> goals_page" where
  "addGoal J now created nm target progress dl st =
     (let g = \<lparr>goal_id = now, name = nm, targetAmount = parseFloat target,
                currentProgress = parseFloat progress, deadline = or_null dl,
                dateCreated = created\<rparr>
      in (g, saveGoals J (st\<lparr>goals := goals st @ [g]\<rparr>)))"

text \<open>An assignment through the reference that \<open>goals.find\<close> returns changes the first
  goal with the identifier, in place.\<close>

fun update_first :: "('a \<Rightarrow> bool) \<Rightarrow> ('a \<Rightarrow> 'a) \<Rightarrow> 'a list \<Rightarrow> 'a list" where
  "update_first P f [] = []"
| "update_first P f (x # xs) = (if P x then f x # xs else x # update_first P f xs)"

definition updateGoal ::
  "goal list JSON \<Rightarrow> int \<Rightarrow> string \<Rightarrow> number \<Rightarrow> number \<Rightarrow> string option \<Rightarrow> goals_page \<Rightarrow> goals_page" where
  "updateGoal J goalId nm target progress dl st =
     (case find (\<lambda>g. goal_id g = goalId) (goals st) of
        None \<Rightarrow> st
      | Some _ \<Rightarrow>
          saveGoals J (st\<lparr>goals := update_first (\<lambda>g. goal_id g = goalId)
            (\<lambda>g. g\<lparr>name := nm, targetAmount := parseFloat target,
                    currentProgress := parseFloat progress, deadline := or_null dl\<rparr>)
            (goals st)\<rparr>))"

definition updateGoalProgress :: "goal list JSON \<Rightarrow> int \<Rightarrow> number \<Rightarrow> goals_page \<Rightarrow> goals_page" where
  "updateGoalProgress J goalId newProgress st =
     (case find (\<lambda>g. goal_id g = goalId) (goals st) of
        None \<Rightarrow> st
      | Some _ \<Rightarrow>
          saveGoals J (st\<lparr>goals := update_first (\<lambda>g. goal_id g = goalId)
            (\<lambda>g. g\<lparr>currentProgress := parseFloat newProgress\<rparr>) (goals st)\<rparr>))"

text \<open>The two assignments of \<open>quickAddProgress\<close> to the goal found.\<close>

definition add_clamped :: "number \<Rightarrow> goal \<Rightarrow> goal" where
  "add_clamped amount g =
     (let g1 = g\<lparr>currentProgress := num_add (currentProgress g) (parseFloat amount)\<rparr>
      in if num_less (targetAmount g1) (currentProgress g1)
         then g1\<lparr>currentProgress := targetAmount g1\<rparr> else g1)"

definition quickAddProgress :: "goal list JSON \<Rightarrow> int \<Rightarrow> number \<Rightarrow> goals_page \<Rightarrow> goals_page" where
  "quickAddProgress J goalId amount st =
     (case find (\<lambda>g. goal_id g = goalId) (goals st) of
        None \<Rightarrow> st
      | Some _ \<Rightarrow>
          saveGoals J (st\<lparr>goals := update_first (\<lambda>g. goal_id g = goalId) (add_clamped amount)
            (goals st)\<rparr>))"

text \<open>A printer for the goals array, to run the scripts; nothing reads the text back here.\<close>

definition json_of_number :: "number \<Rightarrow> json" where
  "json_of_number x = (case x of Num a \<Rightarrow> JNum \<lfloor>a\<rfloor> | _ \<Rightarrow> JNull)"

definition json_of_goal :: "goal \<Rightarrow> json" where
  "json_of_goal g =
     JObj [(''id'', JNum (goal_id g)), (''name'', JStr (name g)),
           (''targetAmount'', json_of_number (targetAmount g)),
           (''currentProgress'', json_of_number (currentProgress g)),
           (''deadline'', case deadline g of None \<Rightarrow> JNull | Some d \<Rightarrow> JStr d),
           (''dateCreated'', JStr (dateCreated g))]"

definition ref_goals_JSON :: "goal list JSON" where
  "ref_goals_JSON =
     \<lparr>parse = (\<lambda>s. None), stringify = (\<lambda>gs. json_print (JArr (map json_of_goal gs)))\<rparr>"

text \<open>A page with no goal, and a page with the goal of the spec's scenario.\<close>

definition fund_page :: goals_page where
  "fund_page = \<lparr>goals = [], storage = Map.empty\<rparr>"

definition one_goal_page :: goals_page where
  "one_goal_page =
     \<lparr>goals = [\<lparr>goal_id = 1, name = ''Emergency Fund'', targetAmount = Num 1000,
                  currentProgress = Num 250, deadline = None,
                  dateCreated = ''2024-01-01T00:00:00.000Z''\<rparr>],
      storage = Map.empty\<rparr>"

section \<open>The chart renderers\<close>

text \<open>
  \<open>displayStockChart\<close> (portfolio script) and \<open>createStockChart\<close> (chart.js) draw the same
  line chart on an 800 by 400 canvas. Of a price point they read \<open>date\<close> and \<open>close\<close>.
  The model returns what the \<open>forEach\<close> over the prices passes to \<open>moveTo\<close> and
  \<open>lineTo\<close>: the pixel coordinates of every point, oldest first; \<open>None\<close> stands for the
  placeholder drawn for an empty series.
\<close>

record pricePoint =
  date :: string
  close :: number

text \<open>\<open>padding + (chartWidth / (prices.length - 1)) * index\<close>.\<close>

definition point_x :: "number \<Rightarrow> number \<Rightarrow> nat \<Rightarrow> nat \<Rightarrow> number" where
  "point_x padding chartWidth n index =
     num_add padding
       (num_mul (num_div chartWidth (num_sub (Num (real n)) (Num 1))) (Num (real index)))"

text \<open>\<open>padding + chartHeight - ((price - minPrice) / priceRange) * chartHeight\<close>.\<close>

definition point_y :: "number \<Rightarrow> number \<Rightarrow> number \<Rightarrow> number \<Rightarrow> number \<Rightarrow> number" where
  "point_y padding chartHeight minPrice priceRange price =
     num_sub (num_add padding chartHeight)
       (num_mul (num_div (num_sub price minPrice) priceRange) chartHeight)"

definition plot :: "number \<Rightarrow> number \<Rightarrow> number \<Rightarrow> number list \<Rightarrow> (number \<times> number) list" where
  "plot padding minPrice priceRange prices =
     (let chartWidth = num_sub (Num 800) (num_mul padding (Num 2));
          chartHeight = num_sub (Num 400) (num_mul padding (Num 2))
      in map (\<lambda>(index, price).
                (point_x padding chartWidth (length prices) index,
                 point_y padding chartHeight minPrice priceRange price))
             (enumerate 0 prices))"

text \<open>\<open>displayStockChart\<close>: padding 60, and \<open>priceRange = maxPrice - minPrice || 1\<close>.\<close>

definition displayStockChart :: "pricePoint list \<Rightarrow> (number \<times> number) list option" where
  "displayStockChart timeSeries =
     (if timeSeries = [] then None
      else
        (let prices = map close (rev timeSeries);
             minPrice = Math_min prices;
             maxPrice = Math_max prices;
             d = num_sub maxPrice minPrice;
             priceRange = (if num_truthy d then d else Num 1)
         in Some (plot (Num 60) minPrice priceRange prices)))"

text \<open>\<open>createStockChart\<close>: padding 50, and \<open>priceRange = maxPrice - minPrice\<close>.\<close>

definition createStockChart :: "pricePoint list \<Rightarrow> (number \<times> number) list option" where
  "createStockChart series =
     (if series = [] then None
      else
        (let prices = map close (rev series);
             minPrice = Math_min prices;
             maxPrice = Math_max prices;
             priceRange = num_sub maxPrice minPrice
         in Some (plot (Num 50) minPrice priceRange prices)))"

text \<open>Whether a coordinate is a finite number.\<close>

fun finite_num :: "number \<Rightarrow> bool" where
  "finite_num (Num a) = True"
| "finite_num _ = False"

section \<open>Properties of the cache\<close>

lemma cache_save_roundtrip:
  "roundtrips J c \<Longrightarrow> fst (cache_save J c ls) \<and> cache_load J (snd (cache_save J c ls)) = c"
  by (simp add: roundtrips_def cache_save_def save_under_def safeStringify_def cache_load_def
      safeParse_def getItem_def setItem_def)

lemma keys_update_present:
  assumes "map_of c cat = Some obj"
  shows "keys (AList.update cat obj' c) = keys c"
proof -
  have "cat \<in> set (map fst c)"
    using assms by (metis map_of_eq_None_iff option.distinct(1) set_map)
  then show ?thesis by (simp add: keys_def update_keys)
qed

lemma length_keys_delete:
  assumes "map_of obj k = Some e"
  shows "Suc (length (keys (AList.delete k obj))) = length (keys obj)"
proof -
  have k: "k \<in> set (map fst obj)"
    using assms by (metis map_of_eq_None_iff option.distinct(1) set_map)
  have "length (keys (AList.delete k obj)) = card (set (map fst obj) - {k})"
    by (simp add: keys_def delete_keys length_remdups_card_conv)
  moreover have "length (keys obj) = card (set (map fst obj))"
    by (simp add: keys_def length_remdups_card_conv)
  ultimately show ?thesis using k
    by (metis List.finite_set card_Suc_Diff1)
qed

lemma count_categories_total:
  "totalEntries (count_categories c ks st) = totalEntries st + sum_list (map (entry_count c) ks)"
  by (induction ks arbitrary: st) (simp_all add: entry_count_def Let_def)

lemma count_categories_by:
  "map_of (byCategory (count_categories c ks st)) cat =
     (if cat \<in> set ks then Some (entry_count c cat) else map_of (byCategory st) cat)"
  by (induction ks arbitrary: st) (auto simp: entry_count_def Let_def update_conv')

lemma sum_list_one_less:
  assumes "distinct ks" "a \<in> set ks" "Suc (g a) = f a" "\<And>x. x \<noteq> a \<Longrightarrow> g x = f x"
  shows "Suc (sum_list (map g ks)) = sum_list (map f (ks::'a list))"
  using assms(1,2)
proof (induction ks)
  case Nil
  then show ?case by simp
next
  case (Cons x ks)
  show ?case
  proof (cases "x = a")
    case True
    then have "a \<notin> set ks" using Cons.prems by simp
    then have "\<And>y. y \<in> set ks \<Longrightarrow> g y = f y" using assms(4) by metis
    then have "sum_list (map g ks) = sum_list (map f ks)" by (metis map_eq_conv)
    then show ?thesis using True assms(3) by simp
  next
    case False
    then show ?thesis using Cons assms(4) by simp
  qed
qed

lemma lookup_update_cat:
  "lookup (AList.update cat obj' c) cat' k' = (if cat' = cat then map_of obj' k' else lookup c cat' k')"
  by (simp add: lookup_def update_conv')

subsection \<open>The sweep\<close>

lemma expired_at_delete:
  "k \<noteq> a \<Longrightarrow> expired_at now (AList.delete a obj) k = expired_at now obj k"
  by (simp add: expired_at_def)

lemma sweep_keys_map:
  "distinct ks \<Longrightarrow>
   map_of (fst (sweep_keys now ks (obj, n))) k =
     (if k \<in> set ks \<and> expired_at now obj k then None else map_of obj k)"
proof (induction ks arbitrary: obj n)
  case Nil
  then show ?case by simp
next
  case (Cons a ks)
  then have d: "distinct ks" and a: "a \<notin> set ks" by simp_all
  show ?case
  proof (cases "map_of obj a")
    case None
    then show ?thesis using Cons.IH[OF d] by (auto simp: expired_at_def)
  next
    case (Some e)
    show ?thesis
    proof (cases "expired now e")
      case True
      show ?thesis using expired_at_delete[of k a now obj] Some True Cons.IH[OF d, of "AList.delete a obj" "Suc n"] a
        by (auto simp: delete_conv' expired_at_def)
    next
      case False
      then show ?thesis using Some Cons.IH[OF d] by (auto simp: expired_at_def)
    qed
  qed
qed

lemma sweep_keys_count:
  "distinct ks \<Longrightarrow>
   snd (sweep_keys now ks (obj, n)) = n + length (filter (expired_at now obj) ks)"
proof (induction ks arbitrary: obj n)
  case Nil
  then show ?case by simp
next
  case (Cons a ks)
  then have d: "distinct ks" and a: "a \<notin> set ks" by simp_all
  show ?case
  proof (cases "expired_at now obj a")
    case False
    then have "sweep_keys now (a # ks) (obj, n) = sweep_keys now ks (obj, n)"
      by (simp add: expired_at_def split: option.splits)
    then show ?thesis using False Cons.IH[OF d, of obj n] by simp
  next
    case True
    then have step: "sweep_keys now (a # ks) (obj, n) = sweep_keys now ks (AList.delete a obj, Suc n)"
      by (simp add: expired_at_def split: option.splits)
    have "filter (expired_at now (AList.delete a obj)) ks = filter (expired_at now obj) ks"
    proof (rule filter_cong[OF refl])
      fix x assume "x \<in> set ks"
      then have "x \<noteq> a" using a by auto
      then show "expired_at now (AList.delete a obj) x = expired_at now obj x"
        by (rule expired_at_delete)
    qed
    then show ?thesis using True Cons.IH[OF d, of "AList.delete a obj" "Suc n"] step by simp
  qed
qed

lemma in_keys_iff: "k \<in> set (keys obj) \<longleftrightarrow> map_of obj k \<noteq> None"
  by (simp add: keys_def map_of_eq_None_iff)

lemma sweep_object_map:
  "map_of (fst (sweep_keys now (keys obj) (obj, n))) k =
     (case map_of obj k of None \<Rightarrow> None | Some e \<Rightarrow> if expired now e then None else Some e)"
proof -
  have "distinct (keys obj)" by (simp add: keys_def)
  then show ?thesis
    using in_keys_iff[of k obj]
    by (auto simp: sweep_keys_map expired_at_def split: option.splits)
qed

lemma sweep_categories_lookup:
  "distinct cats \<Longrightarrow>
   lookup (fst (sweep_categories now cats (c, n))) cat k =
     (if cat \<in> set cats
      then (case lookup c cat k of None \<Rightarrow> None | Some e \<Rightarrow> if expired now e then None else Some e)
      else lookup c cat k)"
proof (induction cats arbitrary: c n)
  case Nil
  then show ?case by simp
next
  case (Cons a cats)
  then have d: "distinct cats" and a: "a \<notin> set cats" by simp_all
  show ?case
  proof (cases "map_of c a")
    case None
    then have "lookup c a k = None" by (simp add: lookup_def)
    then show ?thesis using None Cons.IH[OF d, of c n] by auto
  next
    case (Some obj)
    obtain obj' n' where sk: "sweep_keys now (keys obj) (obj, n) = (obj', n')"
      by (cases "sweep_keys now (keys obj) (obj, n)")
    have obj': "map_of obj' k =
        (case map_of obj k of None \<Rightarrow> None | Some e \<Rightarrow> if expired now e then None else Some e)"
      using sweep_object_map[of now obj n k] sk by simp
    have step: "sweep_categories now (a # cats) (c, n)
        = sweep_categories now cats (AList.update a obj' c, n')"
      using Some sk by simp
    have l1: "lookup (AList.update a obj' c) cat k
        = (if cat = a then map_of obj' k else lookup c cat k)"
      by (simp add: lookup_update_cat)
    have l2: "lookup c a k = map_of obj k" using Some by (simp add: lookup_def)
    show ?thesis
      unfolding step using Cons.IH[OF d, of "AList.update a obj' c" n'] a l1 l2 obj'
      by auto
  qed
qed

lemma sweep_categories_count:
  "distinct cats \<Longrightarrow>
   snd (sweep_categories now cats (c, n)) = n + sum_list (map (expired_count now c) cats)"
proof (induction cats arbitrary: c n)
  case Nil
  then show ?case by simp
next
  case (Cons a cats)
  then have d: "distinct cats" and a: "a \<notin> set cats" by simp_all
  show ?case
  proof (cases "map_of c a")
    case None
    then show ?thesis using Cons.IH[OF d, of c n] by (simp add: expired_count_def)
  next
    case (Some obj)
    obtain obj' n' where sk: "sweep_keys now (keys obj) (obj, n) = (obj', n')"
      by (cases "sweep_keys now (keys obj) (obj, n)")
    have n': "n' = n + expired_count now c a"
      using sweep_keys_count[of "keys obj" now obj n] sk Some
      by (simp add: expired_count_def keys_def)
    have "expired_count now (AList.update a obj' c) x = expired_count now c x" if "x \<in> set cats" for x
      using that a by (auto simp: expired_count_def update_conv')
    then have same: "map (expired_count now (AList.update a obj' c)) cats
        = map (expired_count now c) cats"
      by simp
    have step: "sweep_categories now (a # cats) (c, n)
        = sweep_categories now cats (AList.update a obj' c, n')"
      using Some sk by simp
    show ?thesis
      unfolding step using Cons.IH[OF d, of "AList.update a obj' c" n'] n' same by simp
  qed
qed

lemma expired_keys_set:
  assumes "map_of c cat = Some obj"
  shows "{k. \<exists>e. lookup c cat k = Some e \<and> expired now e}
       = set (filter (expired_at now obj) (keys obj))"
  using assms in_keys_iff[of _ obj]
  by (auto simp: lookup_def expired_at_def split: option.splits)

lemma expired_keys_card:
  "card {k. \<exists>e. lookup c cat k = Some e \<and> expired now e} = expired_count now c cat"
proof (cases "map_of c cat")
  case None
  then show ?thesis by (simp add: lookup_def expired_count_def)
next
  case (Some obj)
  have "distinct (filter (expired_at now obj) (keys obj))" by (simp add: keys_def)
  then have "card (set (filter (expired_at now obj) (keys obj)))
      = length (filter (expired_at now obj) (keys obj))"
    by (rule distinct_card)
  then show ?thesis
    using Some by (simp only: expired_keys_set[OF Some] expired_count_def option.case)
qed

lemma expired_card:
  "card {(cat, k). \<exists>e. lookup c cat k = Some e \<and> expired now e}
     = sum_list (map (expired_count now c) (keys c))"
proof -
  let ?B = "\<lambda>cat. {k. \<exists>e. lookup c cat k = Some e \<and> expired now e}"
  have fin: "finite (?B cat)" for cat
  proof (cases "map_of c cat")
    case None
    then show ?thesis by (simp add: lookup_def)
  next
    case (Some obj)
    then show ?thesis using expired_keys_set[OF Some, of now] by simp
  qed
  have "{(cat, k). \<exists>e. lookup c cat k = Some e \<and> expired now e} = Sigma (set (keys c)) ?B"
    using in_keys_iff[of _ c] by (auto simp: lookup_def split: option.splits)
  then have "card {(cat, k). \<exists>e. lookup c cat k = Some e \<and> expired now e}
      = (\<Sum>cat\<in>set (keys c). card (?B cat))"
    using fin by simp
  also have "\<dots> = (\<Sum>cat\<in>set (keys c). expired_count now c cat)"
    by (simp add: expired_keys_card)
  also have "\<dots> = sum_list (map (expired_count now c) (keys c))"
    by (simp add: sum_list_distinct_conv_sum_set keys_def)
  finally show ?thesis .
qed

lemma sweep_lookup:
  "lookup (fst (sweep now c)) cat k =
     (case lookup c cat k of None \<Rightarrow> None | Some e \<Rightarrow> if expired now e then None else Some e)"
proof -
  have d: "distinct (keys c)" by (simp add: keys_def)
  have "cat \<notin> set (keys c) \<Longrightarrow> lookup c cat k = None"
    using in_keys_iff[of cat c] by (simp add: lookup_def)
  then show ?thesis
    using sweep_categories_lookup[OF d, of now c 0 cat k] by (auto simp: sweep_def)
qed

lemma sweep_count:
  "snd (sweep now c) = card {(cat, k). \<exists>e. lookup c cat k = Some e \<and> expired now e}"
proof -
  have d: "distinct (keys c)" by (simp add: keys_def)
  show ?thesis
    using sweep_categories_count[OF d, of now c 0] by (simp add: sweep_def expired_card)
qed

lemma clearExpired_result:
  "clearExpired J now ls =
     (snd (sweep now (cache_load J ls)), snd (cache_save J (fst (sweep now (cache_load J ls))) ls))"
  by (simp add: clearExpired_def Let_def split: prod.splits)

lemma clearExpired_load:
  assumes "roundtrips J (fst (sweep now (cache_load J ls)))"
  shows "cache_load J (snd (clearExpired J now ls)) = fst (sweep now (cache_load J ls))"
  using cache_save_roundtrip[OF assms, of ls] by (simp add: clearExpired_result)

lemma lookup_put_entry: "lookup (put_entry c cat k e) cat k = Some e"
  by (simp add: put_entry_def Let_def lookup_update_cat update_conv')

lemma cache_get_fresh:
  "lookup (cache_load J ls) cat k = Some e \<Longrightarrow> \<not> expired now e \<Longrightarrow>
   cache_get J now cat k ls = (data e, ls)"
  by (simp add: cache_get_def)

subsection \<open>Running the reference browser\<close>

text \<open>Equations that let the simplifier run the reader and the printer on a stored text.\<close>

lemmas read_eval = json_read_def skip_ws_def is_ws_def read_number_def read_nat_def
  is_digit_def digit_val_def
lemmas print_eval = show_int_def show_nat.simps digit_char_def
lemmas ref_cache_eval = ref_cache_JSON_def cache_of_json_def object_of_json_def
  entry_of_json_def json_of_cache_def json_of_entry_def

lemma aapl_load:
  "cache_load ref_cache_JSON aapl_store = [(''stockPrices'', [(''AAPL'', aapl_entry)])]"
  by (simp add: aapl_store_def aapl_entry_def cache_load_def safeParse_def getItem_def CACHE_def
      ref_cache_eval read_eval)

lemma rt_empty_category: "roundtrips ref_cache_JSON [(''stockPrices'', [])]"
  by (simp add: roundtrips_def ref_cache_eval read_eval print_eval)

lemma news_load: "cache_load ref_cache_JSON news_store = [(''news'', news_entries)]"
  by (simp add: news_store_def news_entries_def cache_load_def safeParse_def getItem_def CACHE_def
      ref_cache_eval read_eval)

lemma news_sweep:
  "sweep 5000 [(''news'', news_entries)] = ([(''news'', take 3 news_entries)], 1)"
  by (simp add: sweep_def keys_def news_entries_def expired_def)

lemma news_swept_roundtrips: "roundtrips ref_cache_JSON [(''news'', take 3 news_entries)]"
  by (simp add: roundtrips_def news_entries_def ref_cache_eval read_eval print_eval)

lemma zero_ttl_put:
  "put_entry (cache_load ref_cache_JSON Map.empty) ''stockPrices'' ''AAPL''
     \<lparr>data = JNum 7, timestamp = 1000, ttl = Some 0\<rparr> = zero_ttl_cache"
  by (simp add: cache_load_def safeParse_def getItem_def default_cache_def put_entry_def
      zero_ttl_cache_def)

lemma zero_ttl_sweep: "fst (sweep now zero_ttl_cache) = zero_ttl_cache"
  by (simp add: sweep_def keys_def zero_ttl_cache_def expired_def)

lemma zero_ttl_roundtrips: "roundtrips ref_cache_JSON zero_ttl_cache"
  by (simp add: roundtrips_def zero_ttl_cache_def ref_cache_eval read_eval print_eval)

subsection \<open>C1: reading an entry that carries a ttl\<close>

text \<open>
  C1, as the code has it. For an entry stored under \<open>(category, key)\<close> with a non-null
  \<open>ttl\<close>, \<open>get\<close> returns the stored value exactly when the \<open>ttl\<close> is \<open>0\<close> or
  \<open>now - timestamp \<le> ttl\<close>, and then leaves the store alone. Otherwise it returns
  \<open>null\<close> and deletes the entry: the entry is gone from the cache loaded afterwards,
  every other coordinate reads as before, \<open>getStats\<close> counts one entry fewer in total and
  one fewer in that category. The browser is asked to round-trip the one document that
  \<open>delete\<close> writes.
\<close>

theorem get_honours_ttl:
  assumes cat: "map_of (cache_load J ls) cat = Some obj"
    and k: "map_of obj k = Some e"
    and t: "ttl e = Some t"
    and rt: "roundtrips J (AList.update cat (AList.delete k obj) (cache_load J ls))"
  shows "fst (cache_get J now cat k ls) = (if t = 0 \<or> now - timestamp e \<le> t then data e else JNull)
    \<and> (if t = 0 \<or> now - timestamp e \<le> t then snd (cache_get J now cat k ls) = ls
        else lookup (cache_load J (snd (cache_get J now cat k ls))) cat k = None
           \<and> (\<forall>cat' k'. (cat', k') \<noteq> (cat, k) \<longrightarrow>
                 lookup (cache_load J (snd (cache_get J now cat k ls))) cat' k'
                   = lookup (cache_load J ls) cat' k')
           \<and> Suc (totalEntries (getStats J (snd (cache_get J now cat k ls))))
                 = totalEntries (getStats J ls)
           \<and> map_of (byCategory (getStats J (snd (cache_get J now cat k ls)))) cat
                 = Some (length (keys obj) - 1))"
proof (cases "t = 0 \<or> now - timestamp e \<le> t")
  case True
  then have "\<not> expired now e" using t by (auto simp: expired_def)
  then show ?thesis using True cat k by (simp add: cache_get_def lookup_def)
next
  case False
  define c where "c = cache_load J ls"
  define c' where "c' = AList.update cat (AList.delete k obj) c"
  define ls' where "ls' = snd (cache_get J now cat k ls)"
  from False have ex: "expired now e" using t by (auto simp: expired_def)
  have "ls' = snd (cache_save J c' ls)"
    using ex cat k by (simp add: ls'_def cache_get_def lookup_def cache_delete_def c_def c'_def)
  then have load: "cache_load J ls' = c'"
    using rt cache_save_roundtrip[of J c' ls] by (simp add: c_def c'_def)
  have gone: "lookup c' cat k = None"
    by (simp add: c'_def lookup_update_cat delete_conv')
  have others: "lookup c' cat' k' = lookup c cat' k'" if "(cat', k') \<noteq> (cat, k)" for cat' k'
  proof (cases "cat' = cat")
    case True
    then have "k' \<noteq> k" using that by simp
    then have "lookup c' cat k' = map_of obj k'"
      by (simp add: c'_def lookup_update_cat)
    moreover have "lookup c cat k' = map_of obj k'"
      using cat by (simp add: lookup_def c_def)
    ultimately show ?thesis using True by simp
  next
    case False
    then show ?thesis by (simp add: c'_def lookup_update_cat)
  qed
  have ks: "keys c' = keys c"
    using cat by (simp add: c'_def c_def keys_update_present)
  have in_ks: "cat \<in> set (keys c)"
    using cat by (metis c_def keys_def map_of_eq_None_iff option.distinct(1) set_map set_remdups)
  have dk: "distinct (keys c)" by (simp add: keys_def)
  have cnt_cat: "Suc (entry_count c' cat) = entry_count c cat"
    using cat k by (simp add: entry_count_def c'_def c_def update_conv' length_keys_delete)
  have cnt_other: "entry_count c' x = entry_count c x" if "x \<noteq> cat" for x
    using that by (simp add: entry_count_def c'_def update_conv')
  have total: "Suc (totalEntries (getStats J ls')) = totalEntries (getStats J ls)"
    using sum_list_one_less[of "keys c" cat "entry_count c'" "entry_count c", OF _ in_ks cnt_cat cnt_other]
    by (simp add: getStats_def load ks count_categories_total c_def[symmetric] dk)
  have by_cat: "map_of (byCategory (getStats J ls')) cat = Some (length (keys obj) - 1)"
    using in_ks cnt_cat cat
    by (simp add: getStats_def load ks count_categories_by entry_count_def c_def)
  have res: "fst (cache_get J now cat k ls) = JNull"
    using ex cat k by (simp add: cache_get_def lookup_def)
  have gone': "lookup (cache_load J ls') cat k = None"
    using gone load by simp
  have others': "\<forall>cat' k'. (cat', k') \<noteq> (cat, k) \<longrightarrow>
      lookup (cache_load J ls') cat' k' = lookup (cache_load J ls) cat' k'"
    using others load c_def by simp
  from False res gone' others' total by_cat show ?thesis
    unfolding ls'_def by simp
qed


text \<open>The theorem at the spec's scenario: one millisecond before the boundary the value
  is served, one millisecond after it the entry is deleted.\<close>

theorem get_honours_ttl_witness:
  "map_of (cache_load ref_cache_JSON aapl_store) ''stockPrices'' = Some [(''AAPL'', aapl_entry)]
   \<and> ttl aapl_entry = Some 3600000
   \<and> roundtrips ref_cache_JSON [(''stockPrices'', [])]
   \<and> fst (cache_get ref_cache_JSON 3600999 ''stockPrices'' ''AAPL'' aapl_store) = data aapl_entry
   \<and> fst (cache_get ref_cache_JSON 3601001 ''stockPrices'' ''AAPL'' aapl_store) = JNull
   \<and> lookup (cache_load ref_cache_JSON
         (snd (cache_get ref_cache_JSON 3601001 ''stockPrices'' ''AAPL'' aapl_store)))
         ''stockPrices'' ''AAPL'' = None
   \<and> Suc (totalEntries (getStats ref_cache_JSON
         (snd (cache_get ref_cache_JSON 3601001 ''stockPrices'' ''AAPL'' aapl_store))))
       = totalEntries (getStats ref_cache_JSON aapl_store)"
proof -
  have h1: "map_of (cache_load ref_cache_JSON aapl_store) ''stockPrices'' = Some [(''AAPL'', aapl_entry)]"
    by (simp add: aapl_load)
  have h2: "map_of [(''AAPL'', aapl_entry)] ''AAPL'' = Some aapl_entry" by simp
  have h3: "ttl aapl_entry = Some 3600000" by (simp add: aapl_entry_def)
  have h4: "roundtrips ref_cache_JSON
      (AList.update ''stockPrices'' (AList.delete ''AAPL'' [(''AAPL'', aapl_entry)])
         (cache_load ref_cache_JSON aapl_store))"
    by (simp add: aapl_load rt_empty_category)
  show ?thesis
    using get_honours_ttl [OF h1 h2 h3 h4, of 3600999] get_honours_ttl [OF h1 h2 h3 h4, of 3601001]
      h1 h3 rt_empty_category
    by (simp add: aapl_entry_def)
qed

text \<open>
  C1 as the spec words it (\<open>get\<close> returns non-null iff \<open>now - timestamp < ttl\<close>) fails at
  the boundary: with \<open>now - timestamp = ttl\<close> the value is still served, since line 613
  tests \<open>>\<close>.
\<close>

theorem get_at_ttl_counterexample:
  "lookup (cache_load ref_cache_JSON aapl_store) ''stockPrices'' ''AAPL'' = Some aapl_entry
   \<and> ttl aapl_entry = Some 3600000
   \<and> \<not> (3601000 - timestamp aapl_entry < 3600000)
   \<and> fst (cache_get ref_cache_JSON 3601000 ''stockPrices'' ''AAPL'' aapl_store)
       = JObj [(''price'', JNum 150)]
   \<and> fst (cache_get ref_cache_JSON 3601000 ''stockPrices'' ''AAPL'' aapl_store) \<noteq> JNull"
  by (simp add: cache_get_def aapl_load lookup_def expired_def aapl_entry_def)

subsection \<open>C2: sweeping the cache\<close>

text \<open>
  C2, as the code has it. \<open>clearExpired\<close> deletes exactly the entries that pass the test
  of line 675, a \<open>ttl\<close> that is neither \<open>null\<close> nor \<open>0\<close> with
  \<open>now - timestamp > ttl\<close>: afterwards every coordinate reads as before unless its entry
  passed the test, in which case it reads nothing. Entries without a \<open>ttl\<close> are
  untouched whatever their age. The number returned is the number of coordinates whose
  entry passed the test. The browser is asked to round-trip the swept document.
\<close>

theorem clearExpired_sweeps:
  assumes rt: "roundtrips J (fst (sweep now (cache_load J ls)))"
  shows "(\<forall>cat k. lookup (cache_load J (snd (clearExpired J now ls))) cat k =
            (case lookup (cache_load J ls) cat k of
               None \<Rightarrow> None
             | Some e \<Rightarrow> if expired now e then None else Some e))
       \<and> fst (clearExpired J now ls)
           = card {(cat, k). \<exists>e. lookup (cache_load J ls) cat k = Some e \<and> expired now e}"
  using clearExpired_load[OF rt]
  by (simp add: sweep_lookup clearExpired_result sweep_count)

text \<open>The theorem on a category of four entries, 4000 ms after they were written: only
  the entry with ttl 10 is swept, the one without a ttl stays.\<close>

theorem clearExpired_sweeps_witness:
  "roundtrips ref_cache_JSON (fst (sweep 5000 (cache_load ref_cache_JSON news_store)))
   \<and> fst (clearExpired ref_cache_JSON 5000 news_store) = 1
   \<and> lookup (cache_load ref_cache_JSON (snd (clearExpired ref_cache_JSON 5000 news_store)))
        ''news'' ''d'' = None
   \<and> lookup (cache_load ref_cache_JSON (snd (clearExpired ref_cache_JSON 5000 news_store)))
        ''news'' ''c'' = Some \<lparr>data = JNum 3, timestamp = 1000, ttl = None\<rparr>"
proof -
  have rt: "roundtrips ref_cache_JSON (fst (sweep 5000 (cache_load ref_cache_JSON news_store)))"
    by (simp add: news_load news_sweep news_swept_roundtrips)
  have n: "fst (clearExpired ref_cache_JSON 5000 news_store) = 1"
    by (simp add: clearExpired_result news_load news_sweep)
  from clearExpired_sweeps [OF rt]
  have l: "lookup (cache_load ref_cache_JSON (snd (clearExpired ref_cache_JSON 5000 news_store))) cat k =
            (case lookup (cache_load ref_cache_JSON news_store) cat k of
               None \<Rightarrow> None
             | Some e \<Rightarrow> if expired 5000 e then None else Some e)" for cat k
    by blast
  show ?thesis
    using rt n l [of "''news''" "''d''"] l [of "''news''" "''c''"]
    by (simp add: news_load lookup_def news_entries_def expired_def)
qed

text \<open>
  C2 with "the ttl has elapsed" read as the spec defines validity (\<open>ttl\<close> non-null and
  not \<open>now - timestamp < ttl\<close>) fails: an entry with ttl 0 and an entry whose age
  equals its ttl have elapsed in that sense, and both survive the sweep.
\<close>

theorem clearExpired_elapsed_counterexample:
  "lookup (cache_load ref_cache_JSON news_store) ''news'' ''a''
      = Some \<lparr>data = JNum 1, timestamp = 1000, ttl = Some 0\<rparr>
   \<and> ttl_elapsed 5000 \<lparr>data = JNum 1, timestamp = 1000, ttl = Some 0\<rparr>
   \<and> lookup (cache_load ref_cache_JSON (snd (clearExpired ref_cache_JSON 5000 news_store)))
        ''news'' ''a'' = Some \<lparr>data = JNum 1, timestamp = 1000, ttl = Some 0\<rparr>
   \<and> lookup (cache_load ref_cache_JSON news_store) ''news'' ''b''
      = Some \<lparr>data = JNum 2, timestamp = 1000, ttl = Some 4000\<rparr>
   \<and> ttl_elapsed 5000 \<lparr>data = JNum 2, timestamp = 1000, ttl = Some 4000\<rparr>
   \<and> lookup (cache_load ref_cache_JSON (snd (clearExpired ref_cache_JSON 5000 news_store)))
        ''news'' ''b'' = Some \<lparr>data = JNum 2, timestamp = 1000, ttl = Some 4000\<rparr>"
proof -
  have "cache_load ref_cache_JSON (snd (clearExpired ref_cache_JSON 5000 news_store))
      = [(''news'', take 3 news_entries)]"
    using cache_save_roundtrip [OF news_swept_roundtrips, of news_store]
    by (simp add: clearExpired_result news_load news_sweep)
  then show ?thesis
    by (simp add: news_load lookup_def news_entries_def ttl_elapsed_def)
qed


subsection \<open>C9: validity under a caller-supplied age\<close>

text \<open>
  C9. \<open>isValid\<close> answers true exactly when an entry is stored at the coordinate and its
  age \<open>now - timestamp\<close> is below the caller's \<open>maxAge\<close>; the stored \<open>ttl\<close> plays no part
  (an entry that \<open>get\<close> would treat as expired is valid under a larger \<open>maxAge\<close>), and
  the store is left as it was.
\<close>

theorem isValid_by_maxAge_only:
  "fst (isValid J now cat k maxAge ls) =
     (\<exists>e. lookup (cache_load J ls) cat k = Some e \<and> now - timestamp e < maxAge)
   \<and> snd (isValid J now cat k maxAge ls) = ls
   \<and> (\<forall>e. lookup (cache_load J ls) cat k = Some e \<and> expired now e \<and> now - timestamp e < maxAge
          \<longrightarrow> fst (isValid J now cat k maxAge ls))"
  by (auto simp: isValid_def Let_def split: option.splits)

text \<open>The theorem at the spec's scenario: long after the stored ttl has run out, the entry
  is valid for a caller that accepts an age of 9000000 ms and not for one that accepts 60000.\<close>

theorem isValid_by_maxAge_only_witness:
  "lookup (cache_load ref_cache_JSON aapl_store) ''stockPrices'' ''AAPL'' = Some aapl_entry
   \<and> expired 7000000 aapl_entry
   \<and> fst (isValid ref_cache_JSON 7000000 ''stockPrices'' ''AAPL'' 9000000 aapl_store)
   \<and> \<not> fst (isValid ref_cache_JSON 7000000 ''stockPrices'' ''AAPL'' 60000 aapl_store)
   \<and> snd (isValid ref_cache_JSON 7000000 ''stockPrices'' ''AAPL'' 9000000 aapl_store) = aapl_store"
proof -
  have l: "lookup (cache_load ref_cache_JSON aapl_store) ''stockPrices'' ''AAPL'' = Some aapl_entry"
    by (simp add: aapl_load lookup_def)
  have e: "expired 7000000 aapl_entry" by (simp add: expired_def aapl_entry_def)
  show ?thesis
    using isValid_by_maxAge_only [of ref_cache_JSON 7000000 "''stockPrices''" "''AAPL''" 9000000 aapl_store]
      isValid_by_maxAge_only [of ref_cache_JSON 7000000 "''stockPrices''" "''AAPL''" 60000 aapl_store]
      l e
    by (simp add: aapl_entry_def)
qed

subsection \<open>C10: a ttl of zero\<close>

text \<open>
  C10. An entry written by \<open>set\<close> with \<open>ttl = 0\<close> never expires: at any later time
  \<open>get\<close> returns its value and leaves the store alone, \<open>clearExpired\<close> run at any time
  keeps it, and \<open>get\<close> at any time after the sweep still returns the value. The browser
  is asked to round-trip the document \<open>set\<close> writes and the document the sweep writes.
\<close>

theorem zero_ttl_never_expires:
  assumes rt1: "roundtrips J (put_entry (cache_load J ls) cat k \<lparr>data = v, timestamp = t0, ttl = Some 0\<rparr>)"
    and rt2: "roundtrips J (fst (sweep now
                (put_entry (cache_load J ls) cat k \<lparr>data = v, timestamp = t0, ttl = Some 0\<rparr>)))"
  shows "fst (cache_set J t0 cat k v (Some 0) ls)
    \<and> cache_get J now cat k (snd (cache_set J t0 cat k v (Some 0) ls))
         = (v, snd (cache_set J t0 cat k v (Some 0) ls))
    \<and> lookup (cache_load J (snd (clearExpired J now (snd (cache_set J t0 cat k v (Some 0) ls))))) cat k
         = Some \<lparr>data = v, timestamp = t0, ttl = Some 0\<rparr>
    \<and> fst (cache_get J now' cat k (snd (clearExpired J now (snd (cache_set J t0 cat k v (Some 0) ls)))))
         = v"
proof -
  define e where "e = \<lparr>data = v, timestamp = t0, ttl = Some 0\<rparr>"
  define c1 where "c1 = put_entry (cache_load J ls) cat k e"
  define ls1 where "ls1 = snd (cache_set J t0 cat k v (Some 0) ls)"
  define ls2 where "ls2 = snd (clearExpired J now ls1)"
  have ne: "\<not> expired t e" for t by (simp add: expired_def e_def)
  have set_eq: "cache_set J t0 cat k v (Some 0) ls = cache_save J c1 ls"
    by (simp add: cache_set_def c1_def e_def)
  have ok: "fst (cache_set J t0 cat k v (Some 0) ls)" and load1: "cache_load J ls1 = c1"
    using cache_save_roundtrip[of J c1 ls] rt1 by (simp_all add: set_eq c1_def e_def ls1_def)
  have l1: "lookup (cache_load J ls1) cat k = Some e"
    by (simp add: load1 c1_def lookup_put_entry)
  have g1: "cache_get J now cat k ls1 = (v, ls1)"
    using cache_get_fresh[OF l1 ne, of now] by (simp add: e_def)
  have rt2': "roundtrips J (fst (sweep now (cache_load J ls1)))"
    using rt2 by (simp add: load1 c1_def e_def)
  have l2: "lookup (cache_load J ls2) cat k = Some e"
    using clearExpired_load[OF rt2'] l1 ne by (simp add: ls2_def sweep_lookup)
  have g2: "cache_get J now' cat k ls2 = (v, ls2)"
    using cache_get_fresh[OF l2 ne, of now'] by (simp add: e_def)
  show ?thesis
    using ok g1 l2 g2 by (simp add: ls1_def ls2_def e_def)
qed

text \<open>The theorem on an empty store, read almost a billion milliseconds after the write.\<close>

theorem zero_ttl_never_expires_witness:
  "roundtrips ref_cache_JSON zero_ttl_cache
   \<and> fst (sweep 999999999 zero_ttl_cache) = zero_ttl_cache
   \<and> cache_get ref_cache_JSON 999999999 ''stockPrices'' ''AAPL''
        (snd (cache_set ref_cache_JSON 1000 ''stockPrices'' ''AAPL'' (JNum 7) (Some 0) Map.empty))
      = (JNum 7, snd (cache_set ref_cache_JSON 1000 ''stockPrices'' ''AAPL'' (JNum 7) (Some 0) Map.empty))
   \<and> fst (cache_get ref_cache_JSON 999999999 ''stockPrices'' ''AAPL''
        (snd (clearExpired ref_cache_JSON 999999999
          (snd (cache_set ref_cache_JSON 1000 ''stockPrices'' ''AAPL'' (JNum 7) (Some 0) Map.empty)))))
      = JNum 7"
proof -
  have rt1: "roundtrips ref_cache_JSON
      (put_entry (cache_load ref_cache_JSON Map.empty) ''stockPrices'' ''AAPL''
         \<lparr>data = JNum 7, timestamp = 1000, ttl = Some 0\<rparr>)"
    by (simp only: zero_ttl_put zero_ttl_roundtrips)
  have rt2: "roundtrips ref_cache_JSON (fst (sweep 999999999
      (put_entry (cache_load ref_cache_JSON Map.empty) ''stockPrices'' ''AAPL''
         \<lparr>data = JNum 7, timestamp = 1000, ttl = Some 0\<rparr>)))"
    by (simp only: zero_ttl_put zero_ttl_sweep zero_ttl_roundtrips)
  show ?thesis
    using zero_ttl_never_expires [OF rt1 rt2, of 999999999] zero_ttl_roundtrips zero_ttl_sweep
    by simp
qed

section \<open>Properties of the collections\<close>

lemma save_under_load:
  "roundtrips J x \<Longrightarrow>
   fst (save_under k J x ls) \<and> safeParse J (getItem (snd (save_under k J x ls)) k) d = x"
  by (simp add: roundtrips_def save_under_def safeStringify_def safeParse_def getItem_def setItem_def)

lemma guarded_loads_default:
  assumes "ls k = None \<or> ls k = Some [] \<or> (\<exists>s. ls k = Some s \<and> parse J s = None)"
  shows "safeParse J (getItem ls k) d = d"
  using assms by (auto simp: safeParse_def getItem_def)

lemma ref_roundtrips_empty: "roundtrips ref_JSON (JArr [])"
  by (simp add: roundtrips_def ref_JSON_def read_eval print_eval)

lemma ref_roundtrips_two: "roundtrips ref_JSON two_records"
  by (simp add: roundtrips_def ref_JSON_def two_records_def read_eval print_eval)

lemma ref_roundtrips_empty_object: "roundtrips ref_JSON (JObj [])"
  by (simp add: roundtrips_def ref_JSON_def read_eval print_eval)

subsection \<open>C3: absent and malformed stored text\<close>

text \<open>
  C3 holds of every loader that goes through \<open>safeParse\<close> (lemma
  \<open>guarded_loads_default\<close>: absent, empty or malformed text gives the default), and fails
  for the collections read at module load. With the malformed text \<open>{\<close> under the key,
  \<open>goals\<close> of goals.js and \<open>spendingItems\<close> of the spending script throw a
  \<open>SyntaxError\<close>, where \<open>goalStorage.load\<close> of storage.js returns the empty array on the
  same text; only the absent key is tolerated.
\<close>

theorem unguarded_parse_throws:
  "goals_init ref_JSON [''savingsGoals'' \<mapsto> ''{''] = Inl SyntaxError
   \<and> spendingItems_init ref_JSON [''spendingItems'' \<mapsto> ''{''] = Inl SyntaxError
   \<and> goals_init ref_JSON Map.empty = Inr (JArr [])
   \<and> goal_load ref_JSON [GOALS \<mapsto> ''{''] = JArr []"
  by (simp add: goals_init_def spendingItems_init_def parse_or_empty_def getItem_def
      goal_load_def safeParse_def ref_JSON_def read_eval GOALS_def)

subsection \<open>C6: save, then load\<close>

text \<open>
  C6, as the code has it. For portfolio, transactions, expenses and goals, \<open>save(x)\<close>
  followed by \<open>load()\<close> returns exactly \<open>x\<close>, for every document \<open>x\<close> that the browser
  round-trips (the empty sequence and sequences of differently shaped records among
  them). For settings, \<open>load()\<close> returns the defaults overwritten by the own properties
  of \<open>x\<close>.
\<close>

theorem collections_roundtrip:
  assumes "roundtrips J x"
  shows "portfolio_load J (snd (portfolio_save J x ls)) = x
       \<and> transaction_load J (snd (transaction_save J x ls)) = x
       \<and> expense_load J (snd (expense_save J x ls)) = x
       \<and> goal_load J (snd (goal_save J x ls)) = x
       \<and> settings_load J (snd (settings_save J x ls)) = JObj (spread defaults x)"
  using save_under_load[OF assms]
  by (simp add: portfolio_load_def portfolio_save_def transaction_load_def transaction_save_def
      expense_load_def expense_save_def goal_load_def goal_save_def settings_load_def
      settings_save_def)

text \<open>The theorem on the empty sequence and on two records of different shapes, with the
  reference browser and an empty store.\<close>

theorem collections_roundtrip_witness:
  "roundtrips ref_JSON (JArr []) \<and> roundtrips ref_JSON two_records
   \<and> portfolio_load ref_JSON (snd (portfolio_save ref_JSON (JArr []) Map.empty)) = JArr []
   \<and> portfolio_load ref_JSON (snd (portfolio_save ref_JSON two_records Map.empty)) = two_records
   \<and> goal_load ref_JSON (snd (goal_save ref_JSON two_records Map.empty)) = two_records
   \<and> settings_load ref_JSON (snd (settings_save ref_JSON (JArr []) Map.empty)) = JObj defaults"
  using collections_roundtrip [OF ref_roundtrips_empty, of Map.empty]
    collections_roundtrip [OF ref_roundtrips_two, of Map.empty]
    ref_roundtrips_empty ref_roundtrips_two
  by (simp add: spread_def own_properties_def)

text \<open>
  C6 as the spec words it fails for settings: after saving the empty object (or the
  empty sequence), \<open>load\<close> returns the five defaults.
\<close>

theorem settings_roundtrip_counterexample:
  "roundtrips ref_JSON (JObj [])
   \<and> settings_load ref_JSON (snd (settings_save ref_JSON (JObj []) Map.empty)) = JObj defaults
   \<and> settings_load ref_JSON (snd (settings_save ref_JSON (JObj []) Map.empty)) \<noteq> JObj []
   \<and> roundtrips ref_JSON (JArr [])
   \<and> settings_load ref_JSON (snd (settings_save ref_JSON (JArr []) Map.empty)) \<noteq> JArr []"
  using save_under_load [OF ref_roundtrips_empty_object, of SETTINGS Map.empty "JObj []"]
    save_under_load [OF ref_roundtrips_empty, of SETTINGS Map.empty "JObj []"]
    ref_roundtrips_empty_object ref_roundtrips_empty
  by (simp add: settings_load_def settings_save_def spread_def own_properties_def defaults_def)

section \<open>Properties of the goals\<close>

lemma find_append_fresh:
  "\<forall>x\<in>set xs. \<not> P x \<Longrightarrow> P g \<Longrightarrow> find P (xs @ [g]) = Some g"
  by (induction xs) simp_all

lemma update_first_append_fresh:
  "\<forall>x\<in>set xs. \<not> P x \<Longrightarrow> P g \<Longrightarrow> update_first P f (xs @ [g]) = xs @ [f g]"
  by (induction xs) simp_all

lemma find_update_first:
  "find P xs = Some g \<Longrightarrow> P (f g) \<Longrightarrow> find P (update_first P f xs) = Some (f g)"
  by (induction xs) (auto split: if_splits)

lemma percentage_25: "calculatePercentage (Num 250) (Num 1000) = Num 25"
  by (simp add: calculatePercentage_def min2_def)

lemma percentage_100: "calculatePercentage (Num 1000) (Num 1000) = Num 100"
  by (simp add: calculatePercentage_def min2_def)

lemma goals_saveGoals [simp]: "goals (saveGoals J st) = goals st"
  by (simp add: saveGoals_def)

lemma storage_saveGoals:
  "storage (saveGoals J st) ''savingsGoals'' = Some (stringify J (goals st))"
  by (simp add: saveGoals_def setItem_def)

lemma percentage_finite:
  "\<exists>p. calculatePercentage (Num c) (Num t) = Num p \<and> p \<le> 100"
  by (simp add: calculatePercentage_def min2_def)

subsection \<open>C7: the emergency fund\<close>

text \<open>
  C7. On a page where no goal has the identifier \<open>Date.now()\<close> hands out, adding a goal
  with \<open>targetAmount\<close> 1000 and \<open>currentProgress\<close> 250 gives a goal whose percentage is
  25, shown as \<open>25% Complete\<close>. After \<open>quickAddProgress(id, 900)\<close> the goal found under
  that identifier has \<open>currentProgress\<close> exactly 1000, its percentage is 100, shown as
  \<open>100% Complete\<close>, and the array just saved is the one the store holds.
\<close>

theorem emergency_fund_scenario:
  assumes fresh: "\<forall>g\<in>set (goals st). goal_id g \<noteq> now"
  shows "(let (g, st1) = addGoal J now created nm (Num 1000) (Num 250) dl st;
              st2 = quickAddProgress J (goal_id g) (Num 900) st1
          in targetAmount g = Num 1000 \<and> currentProgress g = Num 250
           \<and> calculatePercentage (currentProgress g) (targetAmount g) = Num 25
           \<and> goal_percentage_text g = ''25% Complete''
           \<and> find (\<lambda>x. goal_id x = goal_id g) (goals st1) = Some g
           \<and> find (\<lambda>x. goal_id x = goal_id g) (goals st2) = Some (g\<lparr>currentProgress := Num 1000\<rparr>)
           \<and> calculatePercentage (Num 1000) (targetAmount g) = Num 100
           \<and> goal_percentage_text (g\<lparr>currentProgress := Num 1000\<rparr>) = ''100% Complete''
           \<and> storage st2 ''savingsGoals'' = Some (stringify J (goals st2)))"
proof -
  define g where "g = \<lparr>goal_id = now, name = nm, targetAmount = Num 1000,
      currentProgress = Num 250, deadline = or_null dl, dateCreated = created\<rparr>"
  define st1 where "st1 = saveGoals J (st\<lparr>goals := goals st @ [g]\<rparr>)"
  define st2 where "st2 = quickAddProgress J now (Num 900) st1"
  have add: "addGoal J now created nm (Num 1000) (Num 250) dl st = (g, st1)"
    by (simp add: addGoal_def parseFloat_def g_def st1_def Let_def)
  have gid: "goal_id g = now" by (simp add: g_def)
  have f1: "find (\<lambda>x. goal_id x = now) (goals st1) = Some g"
    using fresh gid by (simp add: st1_def find_append_fresh)
  have clamp: "add_clamped (Num 900) g = g\<lparr>currentProgress := Num 1000\<rparr>"
    by (simp add: add_clamped_def parseFloat_def g_def)
  have goals2: "goals st2 = goals st @ [g\<lparr>currentProgress := Num 1000\<rparr>]"
    using fresh gid f1 clamp
    by (simp add: st2_def quickAddProgress_def st1_def update_first_append_fresh)
  have f2: "find (\<lambda>x. goal_id x = now) (goals st2) = Some (g\<lparr>currentProgress := Num 1000\<rparr>)"
    using fresh gid by (simp add: goals2 find_append_fresh)
  have s2: "storage st2 ''savingsGoals'' = Some (stringify J (goals st2))"
    using f1 by (simp add: st2_def quickAddProgress_def storage_saveGoals)
  have p1: "goal_percentage_text g = ''25% Complete''"
    by (simp add: goal_percentage_text_def g_def percentage_25 print_eval)
  have p2: "goal_percentage_text (g\<lparr>currentProgress := Num 1000\<rparr>) = ''100% Complete''"
    by (simp add: goal_percentage_text_def g_def percentage_100 print_eval)
  have t: "targetAmount g = Num 1000" "currentProgress g = Num 250" by (simp_all add: g_def)
  show ?thesis
    using f1 f2 s2 p1 p2 t
    by (simp add: add gid st2_def[symmetric] percentage_25 percentage_100)
qed

text \<open>The theorem on an empty page.\<close>

theorem emergency_fund_scenario_witness:
  "goal_percentage_text (fst (addGoal ref_goals_JSON 1700000000000 ''2023-11-14T22:13:20.000Z''
       ''Emergency Fund'' (Num 1000) (Num 250) None fund_page)) = ''25% Complete''
   \<and> map currentProgress (goals (quickAddProgress ref_goals_JSON 1700000000000 (Num 900)
       (snd (addGoal ref_goals_JSON 1700000000000 ''2023-11-14T22:13:20.000Z''
          ''Emergency Fund'' (Num 1000) (Num 250) None fund_page)))) = [Num 1000]"
proof -
  have fresh: "\<forall>g\<in>set (goals fund_page). goal_id g \<noteq> 1700000000000"
    by (simp add: fund_page_def)
  show ?thesis
    using emergency_fund_scenario [OF fresh, of ref_goals_JSON "''2023-11-14T22:13:20.000Z''"
        "''Emergency Fund''" None]
    by (simp add: Let_def addGoal_def parseFloat_def fund_page_def quickAddProgress_def
        add_clamped_def split: prod.splits)
qed

subsection \<open>C8: what is clamped\<close>

text \<open>
  C8, as the code has it. For finite amounts the displayed percentage is at most 100.
  \<open>addGoal\<close> returns a goal with the progress it is given and leaves exactly that goal,
  unclamped, at the end of the array and in the saved text. \<open>updateGoal\<close> and
  \<open>updateGoalProgress\<close> give the goal found the progress they are given, unclamped, so
  the stored value can exceed the target. \<open>quickAddProgress\<close> does clamp: it stores the
  target whenever the sum would exceed it. After each of the three the saved text is
  that of the array.
\<close>

theorem display_clamps_quickAdd_clamps:
  "(\<exists>p. calculatePercentage (Num c) (Num t) = Num p \<and> p \<le> 100)
   \<and> currentProgress (fst (addGoal J now created nm target progress dl st)) = progress
   \<and> goals (snd (addGoal J now created nm target progress dl st))
       = goals st @ [\<lparr>goal_id = now, name = nm, targetAmount = target,
                        currentProgress = progress, deadline = or_null dl,
                        dateCreated = created\<rparr>]
   \<and> storage (snd (addGoal J now created nm target progress dl st)) ''savingsGoals''
       = Some (stringify J (goals st @ [\<lparr>goal_id = now, name = nm, targetAmount = target,
                        currentProgress = progress, deadline = or_null dl,
                        dateCreated = created\<rparr>]))
   \<and> (find (\<lambda>x. goal_id x = i) (goals st) = Some g \<longrightarrow>
        find (\<lambda>x. goal_id x = i) (goals (updateGoalProgress J i progress st))
          = Some (g\<lparr>currentProgress := progress\<rparr>)
      \<and> storage (updateGoalProgress J i progress st) ''savingsGoals''
          = Some (stringify J (goals (updateGoalProgress J i progress st)))
      \<and> find (\<lambda>x. goal_id x = i) (goals (updateGoal J i nm target progress dl st))
          = Some (g\<lparr>name := nm, targetAmount := target, currentProgress := progress,
                     deadline := or_null dl\<rparr>)
      \<and> storage (updateGoal J i nm target progress dl st) ''savingsGoals''
          = Some (stringify J (goals (updateGoal J i nm target progress dl st)))
      \<and> find (\<lambda>x. goal_id x = i) (goals (quickAddProgress J i amount st))
          = Some (g\<lparr>currentProgress :=
                       (if num_less (targetAmount g) (num_add (currentProgress g) amount)
                        then targetAmount g else num_add (currentProgress g) amount)\<rparr>)
      \<and> storage (quickAddProgress J i amount st) ''savingsGoals''
          = Some (stringify J (goals (quickAddProgress J i amount st))))"
proof -
  have a: "currentProgress (fst (addGoal J now created nm target progress dl st)) = progress"
    by (simp add: addGoal_def Let_def parseFloat_def)
  have a2: "goals (snd (addGoal J now created nm target progress dl st))
       = goals st @ [\<lparr>goal_id = now, name = nm, targetAmount = target,
                        currentProgress = progress, deadline = or_null dl,
                        dateCreated = created\<rparr>]"
    by (simp add: addGoal_def Let_def parseFloat_def)
  have a3: "storage (snd (addGoal J now created nm target progress dl st)) ''savingsGoals''
       = Some (stringify J (goals st @ [\<lparr>goal_id = now, name = nm, targetAmount = target,
                        currentProgress = progress, deadline = or_null dl,
                        dateCreated = created\<rparr>]))"
    by (simp add: addGoal_def Let_def parseFloat_def storage_saveGoals)
  have b: "find (\<lambda>x. goal_id x = i) (goals (updateGoalProgress J i progress st))
          = Some (g\<lparr>currentProgress := progress\<rparr>)"
    if f: "find (\<lambda>x. goal_id x = i) (goals st) = Some g"
  proof -
    have "goal_id g = i" using f by (metis (mono_tags, lifting) find_Some_iff)
    then show ?thesis
      using f find_update_first[OF f, of "\<lambda>g. g\<lparr>currentProgress := parseFloat progress\<rparr>"]
      by (simp add: updateGoalProgress_def parseFloat_def)
  qed
  have b2: "storage (updateGoalProgress J i progress st) ''savingsGoals''
          = Some (stringify J (goals (updateGoalProgress J i progress st)))"
    if f: "find (\<lambda>x. goal_id x = i) (goals st) = Some g"
    using f by (simp add: updateGoalProgress_def storage_saveGoals)
  have c: "find (\<lambda>x. goal_id x = i) (goals (updateGoal J i nm target progress dl st))
          = Some (g\<lparr>name := nm, targetAmount := target, currentProgress := progress,
                     deadline := or_null dl\<rparr>)"
    if f: "find (\<lambda>x. goal_id x = i) (goals st) = Some g"
  proof -
    have "goal_id g = i" using f by (metis (mono_tags, lifting) find_Some_iff)
    then show ?thesis
      using f find_update_first[OF f, of "\<lambda>g. g\<lparr>name := nm, targetAmount := parseFloat target,
                    currentProgress := parseFloat progress, deadline := or_null dl\<rparr>"]
      by (simp add: updateGoal_def parseFloat_def)
  qed
  have c2: "storage (updateGoal J i nm target progress dl st) ''savingsGoals''
          = Some (stringify J (goals (updateGoal J i nm target progress dl st)))"
    if f: "find (\<lambda>x. goal_id x = i) (goals st) = Some g"
    using f by (simp add: updateGoal_def storage_saveGoals)
  have d: "find (\<lambda>x. goal_id x = i) (goals (quickAddProgress J i amount st))
          = Some (g\<lparr>currentProgress :=
                       (if num_less (targetAmount g) (num_add (currentProgress g) amount)
                        then targetAmount g else num_add (currentProgress g) amount)\<rparr>)"
    if f: "find (\<lambda>x. goal_id x = i) (goals st) = Some g"
  proof -
    have gi: "goal_id g = i" using f by (metis (mono_tags, lifting) find_Some_iff)
    have ac: "add_clamped amount g = g\<lparr>currentProgress :=
                       (if num_less (targetAmount g) (num_add (currentProgress g) amount)
                        then targetAmount g else num_add (currentProgress g) amount)\<rparr>"
      by (simp add: add_clamped_def Let_def parseFloat_def)
    have "goal_id (add_clamped amount g) = i" using gi by (simp add: ac)
    then show ?thesis
      using f find_update_first[OF f, of "add_clamped amount"] ac
      by (simp add: quickAddProgress_def)
  qed
  have d2: "storage (quickAddProgress J i amount st) ''savingsGoals''
          = Some (stringify J (goals (quickAddProgress J i amount st)))"
    if f: "find (\<lambda>x. goal_id x = i) (goals st) = Some g"
    using f by (simp add: quickAddProgress_def storage_saveGoals)
  show ?thesis using percentage_finite a a2 a3 b b2 c c2 d d2 by blast
qed

text \<open>The theorem on the goal 250 of 1000: \<open>addGoal\<close> with progress 2000 leaves a stored
  goal at 2000 in the array and in the saved text, \<open>updateGoalProgress\<close> stores 2000, above
  the target and displayed as 100; \<open>quickAddProgress\<close> of 900 stores 1000.\<close>

theorem display_clamps_quickAdd_clamps_witness:
  "find (\<lambda>x. goal_id x = 1) (goals one_goal_page) = Some (hd (goals one_goal_page))
   \<and> map currentProgress (goals (snd (addGoal ref_goals_JSON 2 ''2024-01-02T00:00:00.000Z''
         ''Car'' (Num 1000) (Num 2000) None one_goal_page))) = [Num 250, Num 2000]
   \<and> storage (snd (addGoal ref_goals_JSON 2 ''2024-01-02T00:00:00.000Z''
         ''Car'' (Num 1000) (Num 2000) None one_goal_page)) ''savingsGoals''
       = Some (stringify ref_goals_JSON (goals (snd (addGoal ref_goals_JSON 2
           ''2024-01-02T00:00:00.000Z'' ''Car'' (Num 1000) (Num 2000) None one_goal_page))))
   \<and> map currentProgress (goals (updateGoalProgress ref_goals_JSON 1 (Num 2000) one_goal_page))
       = [Num 2000]
   \<and> num_less (Num 1000) (Num 2000)
   \<and> calculatePercentage (Num 2000) (Num 1000) = Num 100
   \<and> map currentProgress (goals (quickAddProgress ref_goals_JSON 1 (Num 900) one_goal_page))
       = [Num 1000]"
proof -
  have f: "find (\<lambda>x. goal_id x = 1) (goals one_goal_page) = Some (hd (goals one_goal_page))"
    by (simp add: one_goal_page_def)
  note th = display_clamps_quickAdd_clamps [where J = ref_goals_JSON and i = 1
      and st = one_goal_page and g = "hd (goals one_goal_page)" and progress = "Num 2000"
      and now = 2 and created = "''2024-01-02T00:00:00.000Z''" and nm = "''Car''"
      and target = "Num 1000" and dl = None]
  from th f
  have u: "find (\<lambda>x. goal_id x = 1) (goals (updateGoalProgress ref_goals_JSON 1 (Num 2000) one_goal_page))
          = Some ((hd (goals one_goal_page))\<lparr>currentProgress := Num 2000\<rparr>)"
    by blast
  from th
  have g: "goals (snd (addGoal ref_goals_JSON 2 ''2024-01-02T00:00:00.000Z'' ''Car''
              (Num 1000) (Num 2000) None one_goal_page))
       = goals one_goal_page @ [\<lparr>goal_id = 2, name = ''Car'', targetAmount = Num 1000,
                        currentProgress = Num 2000, deadline = or_null None,
                        dateCreated = ''2024-01-02T00:00:00.000Z''\<rparr>]"
    by blast
  from th
  have s: "storage (snd (addGoal ref_goals_JSON 2 ''2024-01-02T00:00:00.000Z'' ''Car''
              (Num 1000) (Num 2000) None one_goal_page)) ''savingsGoals''
       = Some (stringify ref_goals_JSON (goals one_goal_page @ [\<lparr>goal_id = 2, name = ''Car'',
                        targetAmount = Num 1000, currentProgress = Num 2000,
                        deadline = or_null None,
                        dateCreated = ''2024-01-02T00:00:00.000Z''\<rparr>]))"
    by blast
  have m: "map currentProgress (goals (snd (addGoal ref_goals_JSON 2 ''2024-01-02T00:00:00.000Z''
         ''Car'' (Num 1000) (Num 2000) None one_goal_page))) = [Num 250, Num 2000]"
    by (simp only: g) (simp add: one_goal_page_def)
  have r: "map currentProgress (goals (updateGoalProgress ref_goals_JSON 1 (Num 2000) one_goal_page))
       = [Num 2000]
   \<and> num_less (Num 1000) (Num 2000)
   \<and> calculatePercentage (Num 2000) (Num 1000) = Num 100
   \<and> map currentProgress (goals (quickAddProgress ref_goals_JSON 1 (Num 900) one_goal_page))
       = [Num 1000]"
    using u
    by (simp add: one_goal_page_def updateGoalProgress_def quickAddProgress_def add_clamped_def
        parseFloat_def calculatePercentage_def min2_def)
  show ?thesis
    using f m r s by (simp add: g)
qed

text \<open>
  C8 as the spec words it (no mutation clamps the stored value) fails for
  \<open>quickAddProgress\<close>: 250 plus 900 is 1150, and 1000 is stored.
\<close>

theorem quickAdd_clamps_counterexample:
  "map currentProgress (goals one_goal_page) = [Num 250]
   \<and> map targetAmount (goals one_goal_page) = [Num 1000]
   \<and> num_add (Num 250) (parseFloat (Num 900)) = Num 1150
   \<and> map currentProgress (goals (quickAddProgress ref_goals_JSON 1 (Num 900) one_goal_page))
       = [Num 1000]
   \<and> Num 1000 \<noteq> Num 1150"
  by (simp add: one_goal_page_def quickAddProgress_def add_clamped_def parseFloat_def)

section \<open>Properties of the chart renderers\<close>

lemmas chart_eval = displayStockChart_def createStockChart_def plot_def point_x_def point_y_def
  Math_min_def Math_max_def min2_def max2_def num_sub_def signed_inf_def Let_def

subsection \<open>The mapping of \<open>displayStockChart\<close>\<close>

text \<open>
  For finite prices \<open>displayStockChart\<close> maps a price \<open>p\<close> to \<open>y = A - B * p\<close> with
  \<open>B > 0\<close>: a higher price is drawn strictly higher on the canvas, equal prices at the
  same finite \<open>y\<close>. The guard \<open>|| 1\<close> keeps the divisor positive on a constant series.
\<close>

lemma fold_min2_Num: "fold (\<lambda>x m. min2 m x) (map Num ps) (Num a) = Num (fold min ps a)"
  by (induction ps arbitrary: a) (simp_all add: min2_def min_def)

lemma fold_max2_Num: "fold (\<lambda>x m. max2 m x) (map Num ps) (Num a) = Num (fold max ps a)"
  by (induction ps arbitrary: a) (simp_all add: max2_def max_def)

lemma Math_min_Num:
  assumes "ps \<noteq> []"
  shows "Math_min (map Num ps) = Num (Min (set ps))"
proof -
  obtain a qs where ps: "ps = a # qs" using assms by (cases ps) auto
  have "min2 PosInf (Num a) = Num a" by (simp add: min2_def)
  then have "Math_min (map Num ps) = fold (\<lambda>x m. min2 m x) (map Num qs) (Num a)"
    by (simp add: Math_min_def ps)
  then show ?thesis using Min.set_eq_fold[of a qs] by (simp add: fold_min2_Num ps)
qed

lemma Math_max_Num:
  assumes "ps \<noteq> []"
  shows "Math_max (map Num ps) = Num (Max (set ps))"
proof -
  obtain a qs where ps: "ps = a # qs" using assms by (cases ps) auto
  have "max2 NegInf (Num a) = Num a" by (simp add: max2_def)
  then have "Math_max (map Num ps) = fold (\<lambda>x m. max2 m x) (map Num qs) (Num a)"
    by (simp add: Math_max_def ps)
  then show ?thesis using Max.set_eq_fold[of a qs] by (simp add: fold_max2_Num ps)
qed

lemma map_snd_plot:
  "map (\<lambda>x. snd (case x of (index, price) \<Rightarrow> (f index, g price))) (enumerate n xs) = map g xs"
  by (induction xs arbitrary: n) simp_all

lemma point_y_Num:
  "r \<noteq> 0 \<Longrightarrow>
   point_y (Num 60) (Num 280) (Num m) (Num r) (Num p) = Num ((340 + 280 * m / r) - (280 / r) * p)"
  by (simp add: point_y_def num_sub_def field_simps)

lemma displayStockChart_affine:
  assumes ne: "ps \<noteq> []" and cl: "map close (rev timeSeries) = map Num ps"
  shows "\<exists>A B pts. 0 < B \<and> displayStockChart timeSeries = Some pts
           \<and> map snd pts = map (\<lambda>p. Num (A - B * p)) ps"
proof -
  define m where "m = Min (set ps)"
  define d where "d = Max (set ps) - m"
  define r where "r = (if d \<noteq> 0 then d else 1)"
  have "m \<le> Max (set ps)" using ne by (simp add: m_def)
  then have "0 \<le> d" by (simp add: d_def)
  then have r: "0 < r" by (simp add: r_def)
  have ts: "timeSeries \<noteq> []" using ne cl by auto
  have mn: "Math_min (map Num ps) = Num m"
    using ne by (simp add: Math_min_Num m_def)
  have mx: "Math_max (map Num ps) = Num (Max (set ps))"
    using ne by (simp add: Math_max_Num)
  have dd: "num_sub (Num (Max (set ps))) (Num m) = Num d"
    by (simp add: num_sub_def d_def)
  have pr: "(if num_truthy (Num d) then Num d else Num 1) = Num r"
    by (simp add: r_def)
  have "displayStockChart timeSeries = Some (plot (Num 60) (Num m) (Num r) (map Num ps))"
    using ts by (simp only: displayStockChart_def cl mn mx dd pr Let_def if_False)
  moreover have "map snd (plot (Num 60) (Num m) (Num r) (map Num ps))
      = map (\<lambda>p. Num ((340 + 280 * m / r) - (280 / r) * p)) ps"
    using r by (simp add: plot_def num_sub_def map_snd_plot point_y_Num Let_def comp_def)
  moreover have "0 < 280 / r" using r by simp
  ultimately show ?thesis by blast
qed

lemma displayStockChart_monotone:
  assumes ne: "ps \<noteq> []" and cl: "map close (rev timeSeries) = map Num ps"
    and ij: "i < length ps" "j < length ps"
  shows "\<exists>pts a b. displayStockChart timeSeries = Some pts
           \<and> snd (pts ! i) = Num a \<and> snd (pts ! j) = Num b
           \<and> (ps ! i < ps ! j \<longrightarrow> b < a) \<and> (ps ! i = ps ! j \<longrightarrow> a = b)"
proof -
  obtain A B pts where B: "0 < B" and pts: "displayStockChart timeSeries = Some pts"
    and ys: "map snd pts = map (\<lambda>p. Num (A - B * p)) ps"
    using displayStockChart_affine[OF ne cl] by blast
  have len: "length pts = length ps" using ys by (metis length_map)
  have yi: "snd (pts ! i) = Num (A - B * ps ! i)"
    using ys ij(1) len by (metis nth_map)
  have yj: "snd (pts ! j) = Num (A - B * ps ! j)"
    using ys ij(2) len by (metis nth_map)
  show ?thesis using B pts yi yj by auto
qed

subsection \<open>C4: a constant series\<close>

text \<open>
  C4 fails for \<open>createStockChart\<close>, which computes \<open>priceRange = maxPrice - minPrice\<close>
  without the guard: on two points of equal \<open>close\<close> every \<open>y\<close> is \<open>0 / 0\<close>, that is
  \<open>NaN\<close>. On the same series \<open>displayStockChart\<close> gives both points the finite
  \<open>y = 340\<close>.
\<close>

theorem constant_series_y_is_NaN:
  "createStockChart [\<lparr>date = d1, close = Num c\<rparr>, \<lparr>date = d2, close = Num c\<rparr>]
     = Some [(Num 50, NaN), (Num 750, NaN)]
   \<and> displayStockChart [\<lparr>date = d1, close = Num c\<rparr>, \<lparr>date = d2, close = Num c\<rparr>]
     = Some [(Num 60, Num 340), (Num 740, Num 340)]"
  by (simp add: chart_eval)

subsection \<open>C5: a series of one point\<close>

text \<open>
  C5 fails in both renderers: for a single point \<open>chartWidth / (n - 1)\<close> is \<open>Infinity\<close>,
  and \<open>Infinity * 0\<close> makes \<open>x\<close> \<open>NaN\<close>. In \<open>createStockChart\<close> the \<open>y\<close> is \<open>NaN\<close>
  as well.
\<close>

theorem single_point_x_is_NaN:
  "displayStockChart [\<lparr>date = d, close = Num c\<rparr>] = Some [(NaN, Num 340)]
   \<and> createStockChart [\<lparr>date = d, close = Num c\<rparr>] = Some [(NaN, NaN)]
   \<and> \<not> finite_num NaN"
  by (simp add: chart_eval)

end
